theory Spec2Isabelle
  imports Complex_Main
begin

section \<open>Values of the Python runtime\<close>

text \<open>
  The program (\<^verbatim>\<open>get_current_week_events.py\<close>) handles values that \<^verbatim>\<open>json.loads\<close> and
  \<^verbatim>\<open>response.json()\<close> return, without checking their types. The model keeps them
  dynamically typed: one datatype for every value a JSON text can denote.
  A dict is an association list in insertion order whose keys are distinct (as in every
  dict the parser builds); a lookup takes the binding of the key.
  Of a float only whether it is zero is ever inspected, so a float is a rational
  (the parser's \<^verbatim>\<open>NaN\<close> and \<^verbatim>\<open>Infinity\<close> behave as any non-zero float).
  Strings are lists of characters; \<^verbatim>\<open>upper\<close> and \<^verbatim>\<open>strip\<close> are modelled on ASCII.
\<close>

datatype json =
    JNull
  | JBool bool
  | JInt int
  | JFloat rat
  | JStr string
  | JArr "json list"
  | JObj "(string \<times> json) list"

text \<open>The exceptions that can leave a function of the program.\<close>

datatype py_error =
    AttributeError
  | IndexError
  | KeyError
  | TypeError
  | OverflowError
  | OSError
  | FileNotFoundError
  | ExtractorFailed string int
  | CookieFileNotCreated

text \<open>
  \<open>FileNotFoundError\<close> is the one \<^verbatim>\<open>_find_cookie_script\<close> raises;
  \<open>ExtractorFailed name code\<close> is the \<^verbatim>\<open>RuntimeError\<close> of \<^verbatim>\<open>_run_cookie_script\<close>,
  \<open>CookieFileNotCreated\<close> the \<^verbatim>\<open>RuntimeError\<close> of \<^verbatim>\<open>get_wssessionid\<close>.
\<close>

text \<open>Truth value of an object, as \<^verbatim>\<open>if x\<close> and \<^verbatim>\<open>not x\<close> test it.\<close>

fun truthy :: "json \<Rightarrow> bool" where
  "truthy JNull = False"
| "truthy (JBool b) = b"
| "truthy (JInt i) = (i \<noteq> 0)"
| "truthy (JFloat r) = (r \<noteq> 0)"
| "truthy (JStr s) = (s \<noteq> [])"
| "truthy (JArr xs) = (xs \<noteq> [])"
| "truthy (JObj kvs) = (kvs \<noteq> [])"

text \<open>\<^verbatim>\<open>d.get(key, default)\<close> on a dict, and on any value: only a dict has the method.\<close>

definition dict_get :: "(string \<times> json) list \<Rightarrow> string \<Rightarrow> json \<Rightarrow> json" where
  "dict_get kvs k dflt = (case map_of kvs k of None \<Rightarrow> dflt | Some v \<Rightarrow> v)"

fun py_get :: "json \<Rightarrow> string \<Rightarrow> json \<Rightarrow> py_error + json" where
  "py_get (JObj kvs) k dflt = Inr (dict_get kvs k dflt)"
| "py_get _ k dflt = Inl AttributeError"

text \<open>
  \<^verbatim>\<open>x[0]\<close>: the first element of a list or string, \<^verbatim>\<open>IndexError\<close> when it is empty;
  a dict built from JSON has string keys only, so the key \<^verbatim>\<open>0\<close> is missing;
  the other values are not subscriptable.
\<close>

fun py_item0 :: "json \<Rightarrow> py_error + json" where
  "py_item0 (JArr []) = Inl IndexError"
| "py_item0 (JArr (x # xs)) = Inr x"
| "py_item0 (JStr []) = Inl IndexError"
| "py_item0 (JStr (c # cs)) = Inr (JStr [c])"
| "py_item0 (JObj kvs) = Inl KeyError"
| "py_item0 _ = Inl TypeError"

text \<open>
  \<^verbatim>\<open>for x in v\<close>: a list yields its elements, a string its characters, a dict its keys;
  the other values are not iterable.
\<close>

fun py_iter :: "json \<Rightarrow> py_error + json list" where
  "py_iter (JArr xs) = Inr xs"
| "py_iter (JStr s) = Inr (map (\<lambda>c. JStr [c]) s)"
| "py_iter (JObj kvs) = Inr (map (\<lambda>kv. JStr (fst kv)) kvs)"
| "py_iter _ = Inl TypeError"

text \<open>
  \<^verbatim>\<open>str(x)\<close>: a string is itself; for every other value it is the runtime's \<^verbatim>\<open>repr\<close>,
  which is taken as a parameter.
\<close>

fun py_str :: "(json \<Rightarrow> string) \<Rightarrow> json \<Rightarrow> string" where
  "py_str rp (JStr s) = s"
| "py_str rp v = rp v"

text \<open>
  \<^verbatim>\<open>x[:20]\<close>: strings and lists can be sliced; a bool, a number and \<^verbatim>\<open>None\<close> are not
  subscriptable, and a dict rejects the slice as a key.
\<close>

fun py_slice20 :: "json \<Rightarrow> py_error + json" where
  "py_slice20 (JStr s) = Inr (JStr (take 20 s))"
| "py_slice20 (JArr xs) = Inr (JArr (take 20 xs))"
| "py_slice20 _ = Inl TypeError"

text \<open>
  A loop that extends one list with what each iteration produces; an exception in an
  iteration leaves the loop, and the function, at once.
\<close>

fun extend_each :: "('a \<Rightarrow> py_error + 'b list) \<Rightarrow> 'a list \<Rightarrow> py_error + 'b list" where
  "extend_each f [] = Inr []"
| "extend_each f (x # xs) =
     (case f x of
        Inl e \<Rightarrow> Inl e
      | Inr ys \<Rightarrow> (case extend_each f xs of Inl e \<Rightarrow> Inl e | Inr zs \<Rightarrow> Inr (ys @ zs)))"


section \<open>Strings\<close>

text \<open>\<^verbatim>\<open>s.split(sep)\<close> for a separator of one character: always at least one part.\<close>

fun split_on :: "char \<Rightarrow> string \<Rightarrow> string list" where
  "split_on sep [] = [[]]"
| "split_on sep (c # cs) =
     (if c = sep then [] # split_on sep cs
      else (case split_on sep cs of p # ps \<Rightarrow> (c # p) # ps | [] \<Rightarrow> [[c]]))"

text \<open>\<^verbatim>\<open>s.split(sep, 1)\<close>: cut at the first separator only; one part when there is none.\<close>

definition split_once :: "char \<Rightarrow> string \<Rightarrow> string list" where
  "split_once sep s =
     (case dropWhile (\<lambda>c. c \<noteq> sep) s of
        [] \<Rightarrow> [s]
      | _ # rest \<Rightarrow> [takeWhile (\<lambda>c. c \<noteq> sep) s, rest])"

text \<open>\<^verbatim>\<open>parts[1]\<close> on a list of strings.\<close>

fun py_item1 :: "string list \<Rightarrow> py_error + string" where
  "py_item1 (a # b # rest) = Inr b"
| "py_item1 _ = Inl IndexError"

text \<open>
  The ASCII characters \<^verbatim>\<open>str.isspace\<close> accepts: tab, line feed, vertical tab, form feed,
  carriage return, the four separators \<^verbatim>\<open>0x1c\<close> to \<^verbatim>\<open>0x1f\<close>, and the space.
\<close>

definition is_space :: "char \<Rightarrow> bool" where
  "is_space c = (c \<in> set [CHR 0x09, CHR 0x0A, CHR 0x0B, CHR 0x0C, CHR 0x0D,
                            CHR 0x1C, CHR 0x1D, CHR 0x1E, CHR 0x1F, CHR 0x20])"

definition strip :: "string \<Rightarrow> string" where
  "strip s = rev (dropWhile is_space (rev (dropWhile is_space s)))"

definition upper_char :: "char \<Rightarrow> char" where
  "upper_char c =
     (case map_of (zip ''abcdefghijklmnopqrstuvwxyz'' ''ABCDEFGHIJKLMNOPQRSTUVWXYZ'') c of
        Some u \<Rightarrow> u
      | None \<Rightarrow> c)"

definition upper :: "string \<Rightarrow> string" where
  "upper s = map upper_char s"

definition startswith :: "string \<Rightarrow> string \<Rightarrow> bool" where
  "startswith s p = (take (length p) s = p)"

definition endswith :: "string \<Rightarrow> string \<Rightarrow> bool" where
  "endswith s p = (length p \<le> length s \<and> drop (length s - length p) s = p)"

text \<open>Decimal digits of a natural number, and \<^verbatim>\<open>"%0wd"\<close> for a value that is not negative.\<close>

fun decimal :: "nat \<Rightarrow> string" where
  "decimal n =
     (if n < 10 then [''0123456789'' ! n]
      else decimal (n div 10) @ [''0123456789'' ! (n mod 10)])"

definition zero_pad :: "nat \<Rightarrow> int \<Rightarrow> string" where
  "zero_pad w n = (let ds = decimal (nat n) in replicate (w - length ds) (CHR ''0'') @ ds)"

section \<open>Dates and times of the standard library\<close>

text \<open>
  \<^verbatim>\<open>datetime.date\<close> holds a year, a month and a day; \<^verbatim>\<open>datetime.datetime\<close> is its subclass
  with the time of day and an optional UTC offset (here in microseconds; \<open>None\<close> is a
  naive value). Date arithmetic goes through the proleptic Gregorian ordinal, with
  day 1 the first of January of year 1, by the library's own algorithms.
\<close>

record py_date =
  year :: int
  month :: int
  day :: int

record py_datetime = py_date +
  hour :: int
  minute :: int
  second :: int
  microsecond :: int
  tzinfo :: "int option"

definition is_leap :: "int \<Rightarrow> bool" where
  "is_leap y = (y mod 4 = 0 \<and> (y mod 100 \<noteq> 0 \<or> y mod 400 = 0))"

definition days_before_year :: "int \<Rightarrow> int" where
  "days_before_year y = (y - 1) * 365 + (y - 1) div 4 - (y - 1) div 100 + (y - 1) div 400"

definition DAYS_IN_MONTH :: "int list" where
  "DAYS_IN_MONTH = [-1, 31, 28, 31, 30, 31, 30, 31, 31, 30, 31, 30, 31]"

definition DAYS_BEFORE_MONTH :: "int list" where
  "DAYS_BEFORE_MONTH = [-1, 0, 31, 59, 90, 120, 151, 181, 212, 243, 273, 304, 334]"

definition days_in_month :: "int \<Rightarrow> int \<Rightarrow> int" where
  "days_in_month y m = (if m = 2 \<and> is_leap y then 29 else DAYS_IN_MONTH ! nat m)"

definition days_before_month :: "int \<Rightarrow> int \<Rightarrow> int" where
  "days_before_month y m = DAYS_BEFORE_MONTH ! nat m + (if m > 2 \<and> is_leap y then 1 else 0)"

definition ymd2ord :: "int \<Rightarrow> int \<Rightarrow> int \<Rightarrow> int" where
  "ymd2ord y m d = days_before_year y + days_before_month y m + d"

definition MAXORDINAL :: int where
  "MAXORDINAL = 3652059"


definition ord2ymd :: "int \<Rightarrow> py_date" where
  "ord2ymd n0 =
     (let n = n0 - 1;
          n400 = n div 146097; n = n mod 146097;
          y = n400 * 400 + 1;
          n100 = n div 36524; n = n mod 36524;
          n4 = n div 1461; n = n mod 1461;
          n1 = n div 365; n = n mod 365;
          y = y + n100 * 100 + n4 * 4 + n1
      in if n1 = 4 \<or> n100 = 4 then \<lparr>year = y - 1, month = 12, day = 31\<rparr>
         else
           let leapyear = (n1 = 3 \<and> (n4 \<noteq> 24 \<or> n100 = 3));
               m = (n + 50) div 32;
               preceding = DAYS_BEFORE_MONTH ! nat m + (if m > 2 \<and> leapyear then 1 else 0)
           in if preceding > n
              then let m' = m - 1;
                       preceding' = preceding -
                         (DAYS_IN_MONTH ! nat m' + (if m' = 2 \<and> leapyear then 1 else 0))
                   in \<lparr>year = y, month = m', day = n - preceding' + 1\<rparr>
              else \<lparr>year = y, month = m, day = n - preceding + 1\<rparr>)"

definition toordinal :: "'a py_date_scheme \<Rightarrow> int" where
  "toordinal d = ymd2ord (year d) (month d) (day d)"

text \<open>\<^verbatim>\<open>d + timedelta(days=k)\<close>; \<^verbatim>\<open>d - timedelta(days=k)\<close> is \<^verbatim>\<open>d + timedelta(days=-k)\<close>.\<close>

definition date_add_days :: "py_date \<Rightarrow> int \<Rightarrow> py_error + py_date" where
  "date_add_days d k =
     (let n = toordinal d + k
      in if 0 < n \<and> n \<le> MAXORDINAL then Inr (ord2ymd n) else Inl OverflowError)"

definition weekday :: "'a py_date_scheme \<Rightarrow> int" where
  "weekday d = (toordinal d + 6) mod 7"

definition isoformat :: "py_date \<Rightarrow> string" where
  "isoformat d = zero_pad 4 (year d) @ ''-'' @ zero_pad 2 (month d) @ ''-'' @ zero_pad 2 (day d)"

text \<open>
  \<^verbatim>\<open>a - b\<close> on two datetimes, in microseconds: naive values are compared field by field,
  aware ones after their offsets; mixing a naive and an aware value is a \<^verbatim>\<open>TypeError\<close>.
\<close>

definition micros_of :: "py_datetime \<Rightarrow> int" where
  "micros_of t =
     ((toordinal t * 86400 + hour t * 3600 + minute t * 60 + second t) * 1000000 + microsecond t)"

definition datetime_sub :: "py_datetime \<Rightarrow> py_datetime \<Rightarrow> py_error + int" where
  "datetime_sub a b =
     (case (tzinfo a, tzinfo b) of
        (None, None) \<Rightarrow> Inr (micros_of a - micros_of b)
      | (Some oa, Some ob) \<Rightarrow> Inr (micros_of a - micros_of b + ob - oa)
      | _ \<Rightarrow> Inl TypeError)"

section \<open>The world the program runs in\<close>

text \<open>
  A file of the script's directory is absent, present but failing to be read
  (\<^verbatim>\<open>read_text\<close> raises an \<^verbatim>\<open>OSError\<close>), a text that \<^verbatim>\<open>json.loads\<close> rejects with
  \<^verbatim>\<open>JSONDecodeError\<close>, or a text that it parses to a value.
\<close>

datatype file_state = Missing | Unreadable | NotJSON | JSON json

text \<open>
  What \<^verbatim>\<open>requests.get\<close> followed by \<^verbatim>\<open>response.json()\<close> can give: an exception of the
  class \<^verbatim>\<open>RequestException\<close> (timeout, connection error, ...), or a response with its
  status code and its body, which is JSON or not.
\<close>

datatype body = NoJSON | Body json

datatype http_outcome = RequestException | Response nat body

text \<open>What a finished subprocess leaves: its exit status, the files and the clock after it.\<close>

record completed =
  returncode :: int
  fs_after :: "string \<Rightarrow> file_state"
  now_after :: py_datetime

text \<open>The effects the claims speak of, in the order the program performs them.\<close>

datatype effect =
    PathExists string
  | ReadText string
  | SubprocessRun string
  | RequestsGet string string
  | TimeSleep

text \<open>
  The world: the files by name, the wall clock (\<^verbatim>\<open>datetime.now()\<close>, a naive value, and
  \<^verbatim>\<open>date.today()\<close>), what running a script does, what the server answers to a URL and a
  \<^verbatim>\<open>Cookie\<close> header, the library's \<^verbatim>\<open>datetime.fromisoformat\<close> (\<open>None\<close> when it raises
  \<^verbatim>\<open>ValueError\<close>) and \<^verbatim>\<open>repr\<close>, and the effects performed so far.
  Messages printed for the operator are not part of the model.
\<close>

record world =
  fs :: "string \<Rightarrow> file_state"
  now :: py_datetime
  today :: py_date
  subprocess_run :: "string \<Rightarrow> completed"
  http :: "string \<Rightarrow> string \<Rightarrow> http_outcome"
  fromisoformat :: "string \<Rightarrow> py_datetime option"
  repr :: "json \<Rightarrow> string"
  trace :: "effect list"

text \<open>\<^verbatim>\<open>datetime.now()\<close> without a time zone argument is a naive value.\<close>

definition datetime_now :: "world \<Rightarrow> py_datetime" where
  "datetime_now w = (now w)\<lparr>tzinfo := None\<rparr>"

definition emit :: "effect \<Rightarrow> world \<Rightarrow> world" where
  "emit e w = w\<lparr>trace := trace w @ [e]\<rparr>"

section \<open>The program\<close>

text \<open>
  Each function below is the function of the same name in the source (a leading
  underscore is dropped). A function with effects takes the world and returns its result
  with the world after it; a raised exception is \<open>Inl\<close>; \<^verbatim>\<open>None\<close> is \<open>JNull\<close>.
\<close>

definition BUILDING_IDS :: "string list" where
  "BUILDING_IDS = [''618852'', ''583845'', ''583852'', ''583841'', ''583837'', ''583840'',
                   ''586114'', ''586120'', ''586116'', ''586124'', ''583865'']"

definition COOKIE_FILE :: string where
  "COOKIE_FILE = ''wssessionid_cookie.json''"

definition SEARCH_COOKIES_FILE :: string where
  "SEARCH_COOKIES_FILE = ''cmu_25live_search_cookies_today.json''"

definition PREFERRED_COOKIE_KEY :: string where
  "PREFERRED_COOKIE_KEY = ''athletics''"

definition COOKIE_MAX_AGE_HOURS :: int where
  "COOKIE_MAX_AGE_HOURS = 12"

text \<open>
  \<^verbatim>\<open>monday = today - timedelta(days=today.weekday())\<close>, then the seven dates
  \<^verbatim>\<open>monday + timedelta(days=i)\<close> in ISO format.
\<close>

definition get_current_week_dates :: "py_date \<Rightarrow> py_error + string list" where
  "get_current_week_dates tod =
     (case date_add_days tod (- weekday tod) of
        Inl e \<Rightarrow> Inl e
      | Inr monday \<Rightarrow>
          extend_each
            (\<lambda>i. case date_add_days monday i of Inl e \<Rightarrow> Inl e | Inr d \<Rightarrow> Inr [isoformat d])
            [0, 1, 2, 3, 4, 5, 6])"

text \<open>
  The body runs under \<^verbatim>\<open>except Exception: return None\<close>: a value that is not a string has
  no \<^verbatim>\<open>endswith\<close>, and a string the library rejects raises \<^verbatim>\<open>ValueError\<close>.
\<close>

definition parse_datetime :: "world \<Rightarrow> json \<Rightarrow> py_datetime option" where
  "parse_datetime w val =
     (case val of
        JStr s \<Rightarrow> fromisoformat w (if endswith s ''Z'' then butlast s @ ''+00:00'' else s)
      | _ \<Rightarrow> None)"

definition candidates :: "string list" where
  "candidates = [''cmu25live_extractor.py'', ''cmu_25live_search_cookie_extractor.py'']"

fun find_first :: "string list \<Rightarrow> world \<Rightarrow> (py_error + string) \<times> world" where
  "find_first [] w = (Inl FileNotFoundError, w)"
| "find_first (c # cs) w =
     (let w1 = emit (PathExists c) w
      in if fs w c \<noteq> Missing then (Inr c, w1) else find_first cs w1)"

definition find_cookie_script :: "world \<Rightarrow> (py_error + string) \<times> world" where
  "find_cookie_script w = find_first candidates w"

text \<open>
  \<^verbatim>\<open>if not cookie or not extracted_at\<close> tests the cookie first and the timestamp only when
  the cookie is truthy. The age test: \<^verbatim>\<open>(now - extracted_dt).total_seconds() / 3600 < 12\<close>. The difference is
  a whole number of microseconds, and the two float divisions are monotone and exact at
  twelve hours, so the test is the comparison of the microseconds with twelve hours.
\<close>

definition load_cookie_from_disk :: "world \<Rightarrow> (py_error + json) \<times> world" where
  "load_cookie_from_disk w =
     (let w1 = emit (PathExists COOKIE_FILE) w
      in if fs w COOKIE_FILE = Missing then (Inr JNull, w1)
         else
           let w2 = emit (ReadText COOKIE_FILE) w1
           in (case fs w COOKIE_FILE of
                 Missing \<Rightarrow> Inl FileNotFoundError
               | Unreadable \<Rightarrow> Inl OSError
               | NotJSON \<Rightarrow> Inr JNull
               | JSON data \<Rightarrow>
                   (case py_get data ''extracted_at'' JNull of
                      Inl e \<Rightarrow> Inl e
                    | Inr extracted_at \<Rightarrow>
                        (case py_get data ''WSSESSIONID'' JNull of
                           Inl e \<Rightarrow> Inl e
                         | Inr cookie \<Rightarrow>
                             if \<not> truthy cookie then Inr JNull
                             else if \<not> truthy extracted_at then Inr JNull
                             else
                               (case parse_datetime w extracted_at of
                                  None \<Rightarrow> Inr JNull
                                | Some extracted_dt \<Rightarrow>
                                    (case datetime_sub (datetime_now w) extracted_dt of
                                       Inl e \<Rightarrow> Inl e
                                     | Inr us \<Rightarrow>
                                         if us < COOKIE_MAX_AGE_HOURS * 3600 * 1000000
                                         then Inr cookie else Inr JNull)))), w2))"

text \<open>
  The subprocess replaces the files and advances the clock; its output is only printed.
  A non-zero exit status raises.
\<close>

definition run_cookie_script :: "world \<Rightarrow> (py_error + unit) \<times> world" where
  "run_cookie_script w =
     (case find_cookie_script w of
        (Inl e, w1) \<Rightarrow> (Inl e, w1)
      | (Inr script, w1) \<Rightarrow>
          (let result = subprocess_run w1 script;
               w2 = (emit (SubprocessRun script) w1)
                      \<lparr>fs := fs_after result, now := now_after result\<rparr>
           in if returncode result \<noteq> 0
              then (Inl (ExtractorFailed script (returncode result)), w2)
              else (Inr (), w2)))"

text \<open>
  The loop over the parts of the cookie string: the first part that, stripped, starts
  with the cookie's name in any case and has a value that is not empty.
\<close>

fun scan_cookie_parts :: "string list \<Rightarrow> py_error + json" where
  "scan_cookie_parts [] = Inr JNull"
| "scan_cookie_parts (part # parts) =
     (let cookie_part = strip part
      in if startswith (upper cookie_part) ''WSSESSIONID=''
         then (case py_item1 (split_once (CHR ''='') cookie_part) of
                 Inl e \<Rightarrow> Inl e
               | Inr val \<Rightarrow> if val \<noteq> [] then Inr (JStr val) else scan_cookie_parts parts)
         else scan_cookie_parts parts)"

text \<open>\<^verbatim>\<open>raw_cookie_string.split(";")\<close>: only a string has the method.\<close>

fun py_split_semicolon :: "json \<Rightarrow> py_error + string list" where
  "py_split_semicolon (JStr s) = Inr (split_on (CHR '';'') s)"
| "py_split_semicolon _ = Inl AttributeError"

definition load_cookie_from_search_results :: "world \<Rightarrow> (py_error + json) \<times> world" where
  "load_cookie_from_search_results w =
     (let w1 = emit (PathExists SEARCH_COOKIES_FILE) w
      in if fs w SEARCH_COOKIES_FILE = Missing then (Inr JNull, w1)
         else
           let w2 = emit (ReadText SEARCH_COOKIES_FILE) w1
           in (case fs w SEARCH_COOKIES_FILE of
                 Missing \<Rightarrow> Inl FileNotFoundError
               | Unreadable \<Rightarrow> Inl OSError
               | NotJSON \<Rightarrow> Inr JNull
               | JSON data \<Rightarrow>
                   (case py_get data PREFERRED_COOKIE_KEY JNull of
                      Inl e \<Rightarrow> Inl e
                    | Inr preferred_entry \<Rightarrow>
                        if \<not> truthy preferred_entry then Inr JNull
                        else
                          (case py_get preferred_entry ''cookies'' JNull of
                             Inl e \<Rightarrow> Inl e
                           | Inr raw_cookie_string \<Rightarrow>
                               if \<not> truthy raw_cookie_string then Inr JNull
                               else
                                 (case py_split_semicolon raw_cookie_string of
                                    Inl e \<Rightarrow> Inl e
                                  | Inr parts \<Rightarrow> scan_cookie_parts parts))), w2))"

definition get_wssessionid :: "world \<Rightarrow> (py_error + json) \<times> world" where
  "get_wssessionid w =
     (case load_cookie_from_disk w of
        (Inl e, w1) \<Rightarrow> (Inl e, w1)
      | (Inr cookie, w1) \<Rightarrow>
          if truthy cookie then (Inr cookie, w1)
          else
            (case load_cookie_from_search_results w1 of
               (Inl e, w2) \<Rightarrow> (Inl e, w2)
             | (Inr cookie, w2) \<Rightarrow>
                 if truthy cookie then (Inr cookie, w2)
                 else
                   (case run_cookie_script w2 of
                      (Inl e, w3) \<Rightarrow> (Inl e, w3)
                    | (Inr _, w3) \<Rightarrow>
                        (case load_cookie_from_disk w3 of
                           (Inl e, w4) \<Rightarrow> (Inl e, w4)
                         | (Inr cookie, w4) \<Rightarrow>
                             if \<not> truthy cookie then (Inl CookieFileNotCreated, w4)
                             else (Inr cookie, w4)))))"

definition get_url :: "string \<Rightarrow> string \<Rightarrow> string" where
  "get_url building_id dy =
     ''https://25live.collegenet.com/25live/data/cmu/run/home/calendar/'' @
     ''calendardata.json?mode=pro&obj_cache_accl=0&space_query_id='' @
     building_id @ ''&start_dt='' @ dy @ ''&end_dt='' @ dy @ ''&page=1&comptype=home'' @
     ''&sort=evdates_event_name&compsubject=location&last_id=-1'' @
     ''&caller=pro-CalendarService.getCalendarDayPage''"

text \<open>The normalized output unit: the dict that \<^verbatim>\<open>fetch_building_events\<close> appends.\<close>

record event =
  name :: string
  location :: json
  startTime :: json
  endTime :: json
  date :: string
  buildingID :: string

text \<open>
  The dict built for one location of one reservation entry; its values are evaluated
  in the order of the keys.
\<close>

definition make_event ::
    "(json \<Rightarrow> string) \<Rightarrow> string \<Rightarrow> string \<Rightarrow> json \<Rightarrow> json \<Rightarrow> py_error + event list" where
  "make_event rp building_id dy ev loc =
     (case py_get ev ''event_name'' (JStr []) of
        Inl e \<Rightarrow> Inl e
      | Inr nm \<Rightarrow>
     (case py_get loc ''itemName'' JNull of
        Inl e \<Rightarrow> Inl e
      | Inr item \<Rightarrow>
     (case py_get ev ''rsrv_start_dt'' JNull of
        Inl e \<Rightarrow> Inl e
      | Inr st \<Rightarrow>
     (case py_get ev ''rsrv_end_dt'' JNull of
        Inl e \<Rightarrow> Inl e
      | Inr en \<Rightarrow>
          Inr [\<lparr>name = py_str rp nm, location = item, startTime = st, endTime = en,
                date = dy, buildingID = building_id\<rparr>]))))"

text \<open>The inner loop: \<^verbatim>\<open>for location in event.get("subject", [])\<close>.\<close>

definition events_of_entry ::
    "(json \<Rightarrow> string) \<Rightarrow> string \<Rightarrow> string \<Rightarrow> json \<Rightarrow> py_error + event list" where
  "events_of_entry rp building_id dy ev =
     (case py_get ev ''subject'' (JArr []) of
        Inl e \<Rightarrow> Inl e
      | Inr subject \<Rightarrow>
          (case py_iter subject of
             Inl e \<Rightarrow> Inl e
           | Inr locations \<Rightarrow> extend_each (make_event rp building_id dy ev) locations))"

text \<open>\<^verbatim>\<open>data.get("root", {}).get("events", [{}])[0].get("rsrv")\<close>\<close>

definition rsrv_of :: "json \<Rightarrow> py_error + json" where
  "rsrv_of data =
     (case py_get data ''root'' (JObj []) of
        Inl e \<Rightarrow> Inl e
      | Inr root_obj \<Rightarrow>
          (case py_get root_obj ''events'' (JArr [JObj []]) of
             Inl e \<Rightarrow> Inl e
           | Inr events \<Rightarrow>
               (case py_item0 events of
                  Inl e \<Rightarrow> Inl e
                | Inr first \<Rightarrow> py_get first ''rsrv'' JNull)))"

text \<open>What the function does with the parsed body.\<close>

definition events_of_data ::
    "(json \<Rightarrow> string) \<Rightarrow> string \<Rightarrow> string \<Rightarrow> json \<Rightarrow> py_error + event list" where
  "events_of_data rp building_id dy data =
     (case rsrv_of data of
        Inl e \<Rightarrow> Inl e
      | Inr rsrv_entries \<Rightarrow>
          if \<not> truthy rsrv_entries then Inr []
          else
            (case py_iter rsrv_entries of
               Inl e \<Rightarrow> Inl e
             | Inr entries \<Rightarrow> extend_each (events_of_entry rp building_id dy) entries))"

text \<open>
  \<^verbatim>\<open>response.raise_for_status()\<close> raises an \<^verbatim>\<open>HTTPError\<close>, which is a
  \<^verbatim>\<open>RequestException\<close>, for a status from 400 to 599.
\<close>

definition raises_for_status :: "nat \<Rightarrow> bool" where
  "raises_for_status status = (400 \<le> status \<and> status < 600)"

text \<open>The two \<^verbatim>\<open>except\<close> clauses return the empty list.\<close>

definition fetch_building_events ::
    "string \<Rightarrow> string \<Rightarrow> json \<Rightarrow> world \<Rightarrow> (py_error + event list) \<times> world" where
  "fetch_building_events building_id dy wssessionid w =
     (let url = get_url building_id dy;
          cookie_header = ''WSSESSIONID='' @ py_str (repr w) wssessionid;
          w1 = emit (RequestsGet url cookie_header) w
      in (case http w url cookie_header of
            RequestException \<Rightarrow> Inr []
          | Response status bdy \<Rightarrow>
              if raises_for_status status then Inr []
              else (case bdy of
                      NoJSON \<Rightarrow> Inr []
                    | Body data \<Rightarrow> events_of_data (repr w) building_id dy data), w1))"

text \<open>
  A \<^verbatim>\<open>for\<close> loop with effects that extends one list; an exception leaves it at once.
\<close>

fun for_extend ::
    "('a \<Rightarrow> world \<Rightarrow> (py_error + 'b list) \<times> world) \<Rightarrow> 'a list \<Rightarrow> world
      \<Rightarrow> (py_error + 'b list) \<times> world" where
  "for_extend f [] w = (Inr [], w)"
| "for_extend f (x # xs) w =
     (case f x w of
        (Inl e, w1) \<Rightarrow> (Inl e, w1)
      | (Inr ys, w1) \<Rightarrow>
          (case for_extend f xs w1 of
             (Inl e, w2) \<Rightarrow> (Inl e, w2)
           | (Inr zs, w2) \<Rightarrow> (Inr (ys @ zs), w2)))"

text \<open>The body of the inner loop: one request, then \<^verbatim>\<open>time.sleep\<close>.\<close>

definition fetch_then_sleep ::
    "json \<Rightarrow> string \<Rightarrow> string \<Rightarrow> world \<Rightarrow> (py_error + event list) \<times> world" where
  "fetch_then_sleep wssessionid building_id dy w =
     (case fetch_building_events building_id dy wssessionid w of
        (Inl e, w1) \<Rightarrow> (Inl e, w1)
      | (Inr evs, w1) \<Rightarrow> (Inr evs, emit TimeSleep w1))"

definition get_current_week_events :: "world \<Rightarrow> (py_error + event list) \<times> world" where
  "get_current_week_events w =
     (case get_wssessionid w of
        (Inl e, w1) \<Rightarrow> (Inl e, w1)
      | (Inr wssessionid, w1) \<Rightarrow>
          (case py_slice20 wssessionid of
             Inl e \<Rightarrow> (Inl e, w1)
           | Inr _ \<Rightarrow>
               (case get_current_week_dates (today w1) of
                  Inl e \<Rightarrow> (Inl e, w1)
                | Inr week_dates \<Rightarrow>
                    for_extend
                      (\<lambda>building_id. for_extend (fetch_then_sleep wssessionid building_id) week_dates)
                      BUILDING_IDS w1)))"

section \<open>Sample inputs\<close>

text \<open>Concrete worlds and responses on which the properties below are evaluated.\<close>

definition midnight :: py_datetime where
  "midnight = \<lparr>year = 2025, month = 1, day = 6, hour = 0, minute = 0, second = 0,
               microsecond = 0, tzinfo = None\<rparr>"

definition world0 :: world where
  "world0 = \<lparr>fs = (\<lambda>_. Missing), now = midnight,
             today = \<lparr>year = 2025, month = 1, day = 6\<rparr>,
             subprocess_run = (\<lambda>_. \<lparr>returncode = 1, fs_after = (\<lambda>_. Missing), now_after = midnight\<rparr>),
             http = (\<lambda>_ _. RequestException),
             fromisoformat = (\<lambda>_. None),
             repr = (\<lambda>_. ''<object>''),
             trace = []\<rparr>"

definition two_rooms :: json where
  "two_rooms =
     JObj [(''root'', JObj [(''events'', JArr [JObj [(''rsrv'', JArr [
        JObj [(''event_name'', JStr ''Seminar''),
              (''rsrv_start_dt'', JStr ''2025-01-06T09:00:00''),
              (''rsrv_end_dt'', JStr ''2025-01-06T10:00:00''),
              (''subject'', JArr [JObj [(''itemName'', JStr ''CUC 101'')],
                                  JObj [(''itemName'', JStr ''CUC 102'')]])],
        JObj [(''event_name'', JStr ''Cancelled''), (''subject'', JArr [])]])]])])]"

definition two_rooms_entries :: "(string \<times> json) list list" where
  "two_rooms_entries =
     [[(''event_name'', JStr ''Seminar''),
       (''rsrv_start_dt'', JStr ''2025-01-06T09:00:00''),
       (''rsrv_end_dt'', JStr ''2025-01-06T10:00:00''),
       (''subject'', JArr [JObj [(''itemName'', JStr ''CUC 101'')],
                           JObj [(''itemName'', JStr ''CUC 102'')]])],
      [(''event_name'', JStr ''Cancelled''), (''subject'', JArr [])]]"

definition world_two_rooms :: world where
  "world_two_rooms = world0\<lparr>http := \<lambda>_ _. Response 200 (Body two_rooms)\<rparr>"

definition two_event_groups :: json where
  "two_event_groups =
     JObj [(''root'', JObj [(''events'', JArr [
        JObj [(''rsrv'', JArr [
          JObj [(''event_name'', JStr ''Seminar''),
                (''rsrv_start_dt'', JStr ''2025-01-06T09:00:00''),
                (''rsrv_end_dt'', JStr ''2025-01-06T10:00:00''),
                (''subject'', JArr [JObj [(''itemName'', JStr ''CUC 101'')]])]])],
        JObj [(''rsrv'', JArr [
          JObj [(''event_name'', JStr ''Lecture''),
                (''rsrv_start_dt'', JStr ''2025-01-06T11:00:00''),
                (''rsrv_end_dt'', JStr ''2025-01-06T12:00:00''),
                (''subject'', JArr [JObj [(''itemName'', JStr ''CUC 102'')]])]])]])])]"

definition world_two_groups :: world where
  "world_two_groups = world0\<lparr>http := \<lambda>_ _. Response 200 (Body two_event_groups)\<rparr>"

definition empty_events :: json where
  "empty_events = JObj [(''root'', JObj [(''events'', JArr [])])]"

definition world_empty_events :: world where
  "world_empty_events = world0\<lparr>http := \<lambda>_ _. Response 200 (Body empty_events)\<rparr>"

definition peer_capture :: "string \<Rightarrow> json" where
  "peer_capture cookies = JObj [(''athletics'', JObj [(''url'', JStr ''https://25live.collegenet.com/''), (''cookies'', JStr cookies)])]"

definition world_peer_capture :: "string \<Rightarrow> world" where
  "world_peer_capture cookies =
     world0\<lparr>fs := (\<lambda>_. Missing)(SEARCH_COOKIES_FILE := JSON (peer_capture cookies))\<rparr>"

text \<open>
  A \<^verbatim>\<open>fromisoformat\<close> for the sample worlds: it reads \<^verbatim>\<open>YYYY-MM-DD\<close>, one separator
  character and \<^verbatim>\<open>HH:MM:SS\<close>, with or without an offset \<^verbatim>\<open>+HH:MM\<close> or \<^verbatim>\<open>-HH:MM\<close>, the
  format that \<^verbatim>\<open>isoformat()\<close> writes at the resolution of a second, and rejects every
  other string. On the strings it reads, the library's function of every Python version
  returns the same value.
\<close>

definition digit_value :: "char \<Rightarrow> int option" where
  "digit_value c = map_of (zip ''0123456789'' [0, 1, 2, 3, 4, 5, 6, 7, 8, 9]) c"

fun digits_value :: "int \<Rightarrow> string \<Rightarrow> int option" where
  "digits_value acc [] = Some acc"
| "digits_value acc (c # cs) =
     (case digit_value c of None \<Rightarrow> None | Some v \<Rightarrow> digits_value (10 * acc + v) cs)"

definition field :: "string \<Rightarrow> nat \<Rightarrow> nat \<Rightarrow> int option" where
  "field s i n = digits_value 0 (take n (drop i s))"

fun all_fields :: "int option list \<Rightarrow> int list option" where
  "all_fields [] = Some []"
| "all_fields (None # xs) = None"
| "all_fields (Some v # xs) = (case all_fields xs of None \<Rightarrow> None | Some vs \<Rightarrow> Some (v # vs))"

definition sample_fromisoformat :: "string \<Rightarrow> py_datetime option" where
  "sample_fromisoformat s =
     (if (length s \<noteq> 19 \<and> length s \<noteq> 25) \<or> s ! 4 \<noteq> CHR ''-'' \<or> s ! 7 \<noteq> CHR ''-'' \<or>
         s ! 13 \<noteq> CHR '':'' \<or> s ! 16 \<noteq> CHR '':'' then None
      else
        (case all_fields [field s 0 4, field s 5 2, field s 8 2, field s 11 2, field s 14 2,
                          field s 17 2] of
           Some [y, m, d, hh, mm, ss] \<Rightarrow>
             if \<not> (1 \<le> y \<and> 1 \<le> m \<and> m \<le> 12 \<and> 1 \<le> d \<and> d \<le> days_in_month y m \<and>
                    hh < 24 \<and> mm < 60 \<and> ss < 60) then None
             else if length s = 19
             then Some \<lparr>year = y, month = m, day = d, hour = hh, minute = mm, second = ss,
                        microsecond = 0, tzinfo = None\<rparr>
             else if (s ! 19 \<noteq> CHR ''+'' \<and> s ! 19 \<noteq> CHR ''-'') \<or> s ! 22 \<noteq> CHR '':'' then None
             else
               (case all_fields [field s 20 2, field s 23 2] of
                  Some [oh, om] \<Rightarrow>
                    if \<not> (oh < 24 \<and> om < 60) then None
                    else Some \<lparr>year = y, month = m, day = d, hour = hh, minute = mm,
                               second = ss, microsecond = 0,
                               tzinfo = Some ((if s ! 19 = CHR ''-'' then - 1 else 1) *
                                              (oh * 3600 + om * 60) * 1000000)\<rparr>
                | _ \<Rightarrow> None)
         | _ \<Rightarrow> None))"

text \<open>
  A well-formed credential store: the token \<^verbatim>\<open>abc\<close> and the time it was acquired.
\<close>

definition stored_credential :: "string \<Rightarrow> json" where
  "stored_credential extracted_at =
     JObj [(''WSSESSIONID'', JStr ''abc''), (''extracted_at'', JStr extracted_at)]"

definition world_store :: "file_state \<Rightarrow> world" where
  "world_store f =
     world0\<lparr>fs := (\<lambda>_. Missing)(COOKIE_FILE := f),
            now := \<lparr>year = 2025, month = 1, day = 6, hour = 20, minute = 0, second = 0,
                    microsecond = 0, tzinfo = None\<rparr>,
            fromisoformat := sample_fromisoformat\<rparr>"

text \<open>The effects a call adds to the trace, and the tier an effect belongs to.\<close>

definition effects_of :: "world \<Rightarrow> world \<Rightarrow> effect list" where
  "effects_of w w' = drop (length (trace w)) (trace w')"

definition is_disk_effect :: "effect \<Rightarrow> bool" where
  "is_disk_effect e = (e = PathExists COOKIE_FILE \<or> e = ReadText COOKIE_FILE)"

definition is_search_effect :: "effect \<Rightarrow> bool" where
  "is_search_effect e = (e = PathExists SEARCH_COOKIES_FILE \<or> e = ReadText SEARCH_COOKIES_FILE)"

fun is_extractor_effect :: "effect \<Rightarrow> bool" where
  "is_extractor_effect (PathExists p) = (p \<in> set candidates)"
| "is_extractor_effect (SubprocessRun p) = True"
| "is_extractor_effect _ = False"

text \<open>
  A run: a fresh stored credential, a server that answers one request of the week with a
  reservation in two rooms, and fails on every other request.
\<close>

definition world_one_answer :: world where
  "world_one_answer =
     (world_store (JSON (stored_credential ''2025-01-06T08:01:00'')))
       \<lparr>http := \<lambda>url hdr. if url = get_url ''583852'' ''2025-01-08''
                            then Response 200 (Body two_rooms) else RequestException\<rparr>"

definition seminar :: "string \<Rightarrow> event" where
  "seminar room =
     \<lparr>name = ''Seminar'', location = JStr room, startTime = JStr ''2025-01-06T09:00:00'',
      endTime = JStr ''2025-01-06T10:00:00'', date = ''2025-01-08'', buildingID = ''583852''\<rparr>"


fun is_acquisition_effect :: "effect \<Rightarrow> bool" where
  "is_acquisition_effect (RequestsGet url hdr) = False"
| "is_acquisition_effect TimeSleep = False"
| "is_acquisition_effect _ = True"

text \<open>The effects that start the extractor program.\<close>

fun is_subprocess :: "effect \<Rightarrow> bool" where
  "is_subprocess (SubprocessRun p) = True"
| "is_subprocess _ = False"

text \<open>
  A run that needs the extractor: no credential store, no peer-capture file, the second
  candidate program present; the program exits with status 0 and leaves a store written
  thirty seconds before it ends.
\<close>

definition world_extractor :: world where
  "world_extractor =
     world0\<lparr>fs := (\<lambda>_. Missing)(''cmu_25live_search_cookie_extractor.py'' := NotJSON),
            now := \<lparr>year = 2025, month = 1, day = 6, hour = 20, minute = 0, second = 0,
                    microsecond = 0, tzinfo = None\<rparr>,
            subprocess_run := (\<lambda>_.
              \<lparr>returncode = 0,
               fs_after = (\<lambda>_. Missing)
                 (''cmu_25live_search_cookie_extractor.py'' := NotJSON,
                  COOKIE_FILE := JSON (stored_credential ''2025-01-06T20:00:30'')),
               now_after = \<lparr>year = 2025, month = 1, day = 6, hour = 20, minute = 1, second = 0,
                             microsecond = 0, tzinfo = None\<rparr>\<rparr>),
            fromisoformat := sample_fromisoformat\<rparr>"

text \<open>
  A run with a fresh stored credential and a server that answers every request with the
  reservation in two rooms, except the request for the first building on the third day
  of the week, which it answers with a body whose \<^verbatim>\<open>events\<close> list is empty.
\<close>

definition world_bad_body :: world where
  "world_bad_body =
     (world_store (JSON (stored_credential ''2025-01-06T08:01:00'')))
       \<lparr>http := \<lambda>url hdr. if url = get_url ''618852'' ''2025-01-08''
                            then Response 200 (Body empty_events)
                            else Response 200 (Body two_rooms)\<rparr>"

section \<open>Properties of the program\<close>

subsection \<open>Loops\<close>

lemma extend_each_all_Inr:
  "\<forall>x\<in>set xs. f x = Inr (g x) \<Longrightarrow> extend_each f xs = Inr (concat (map g xs))"
  by (induction xs) auto

subsection \<open>The event fetcher\<close>

lemma make_event_dict:
  "make_event rp b d (JObj kvs) (JObj l) =
     Inr [\<lparr>name = py_str rp (dict_get kvs ''event_name'' (JStr [])),
           location = dict_get l ''itemName'' JNull,
           startTime = dict_get kvs ''rsrv_start_dt'' JNull,
           endTime = dict_get kvs ''rsrv_end_dt'' JNull,
           date = d, buildingID = b\<rparr>]"
  by (simp add: make_event_def)

lemma events_of_entry_dicts:
  assumes "dict_get kvs ''subject'' (JArr []) = JArr (map JObj ls)"
  shows "events_of_entry rp b d (JObj kvs) =
     Inr (map (\<lambda>l. \<lparr>name = py_str rp (dict_get kvs ''event_name'' (JStr [])),
           location = dict_get l ''itemName'' JNull,
           startTime = dict_get kvs ''rsrv_start_dt'' JNull,
           endTime = dict_get kvs ''rsrv_end_dt'' JNull,
           date = d, buildingID = b\<rparr>) ls)"
proof -
  have "extend_each (make_event rp b d (JObj kvs)) (map JObj ls) =
        Inr (concat (map (\<lambda>x. case x of JObj l \<Rightarrow> [\<lparr>name = py_str rp (dict_get kvs ''event_name'' (JStr [])),
           location = dict_get l ''itemName'' JNull,
           startTime = dict_get kvs ''rsrv_start_dt'' JNull,
           endTime = dict_get kvs ''rsrv_end_dt'' JNull,
           date = d, buildingID = b\<rparr>] | _ \<Rightarrow> []) (map JObj ls)))"
    by (rule extend_each_all_Inr) (auto simp: make_event_dict)
  then show ?thesis using assms
    by (simp add: events_of_entry_def comp_def concat_map_singleton)
qed

lemma fetch_ok_response:
  assumes "http w (get_url b d) (''WSSESSIONID='' @ py_str (repr w) c) = Response st (Body data)"
      and "\<not> raises_for_status st"
  shows "fst (fetch_building_events b d c w) = events_of_data (repr w) b d data"
  using assms by (simp add: fetch_building_events_def Let_def)

lemma events_of_data_entries:
  assumes rsrv: "rsrv_of data = Inr (JArr entries)"
      and each: "\<forall>en\<in>set entries. events_of_entry rp b d en = Inr (g en)"
  shows "events_of_data rp b d data = Inr (concat (map g entries))"
proof (cases entries)
  case Nil
  with rsrv show ?thesis by (simp add: events_of_data_def)
next
  case (Cons en rest)
  from each have "extend_each (events_of_entry rp b d) entries = Inr (concat (map g entries))"
    by (rule extend_each_all_Inr)
  with rsrv Cons show ?thesis by (simp add: events_of_data_def)
qed

text \<open>
  Claim C7. In a response whose reservation entries are dicts with a list of dicts as
  \<^verbatim>\<open>subject\<close>, the fetcher returns the concatenation, in order, of one group of records per
  entry; the group of an entry with \<open>k\<close> locations has exactly \<open>k\<close> records (none for
  \<open>k = 0\<close>), which all carry the entry's name, start and end, the requested date and
  building, and differ only in \<^verbatim>\<open>location\<close>, the \<^verbatim>\<open>itemName\<close> of the location.
\<close>

theorem fetch_one_record_per_location:
  assumes resp: "http w (get_url b d) (''WSSESSIONID='' @ py_str (repr w) c) = Response st (Body data)"
      and ok: "\<not> raises_for_status st"
      and rsrv: "rsrv_of data = Inr (JArr (map JObj entries))"
      and subj: "\<forall>kvs\<in>set entries. \<exists>ls. dict_get kvs ''subject'' (JArr []) = JArr (map JObj ls)"
  shows "\<exists>ess. fst (fetch_building_events b d c w) = Inr (concat ess) \<and>
           length ess = length entries \<and>
           (\<forall>j<length entries. \<forall>ls.
              dict_get (entries ! j) ''subject'' (JArr []) = JArr (map JObj ls) \<longrightarrow>
              length (ess ! j) = length ls \<and>
              (\<forall>i<length ls.
                 name (ess ! j ! i) = py_str (repr w) (dict_get (entries ! j) ''event_name'' (JStr [])) \<and>
                 location (ess ! j ! i) = dict_get (ls ! i) ''itemName'' JNull \<and>
                 startTime (ess ! j ! i) = dict_get (entries ! j) ''rsrv_start_dt'' JNull \<and>
                 endTime (ess ! j ! i) = dict_get (entries ! j) ''rsrv_end_dt'' JNull \<and>
                 date (ess ! j ! i) = d \<and> buildingID (ess ! j ! i) = b))"
proof -
  define g where "g en = (case events_of_entry (repr w) b d en of Inr evs \<Rightarrow> evs | Inl _ \<Rightarrow> [])" for en
  have each: "\<forall>en\<in>set (map JObj entries). events_of_entry (repr w) b d en = Inr (g en)"
  proof
    fix en assume "en \<in> set (map JObj entries)"
    then obtain kvs where kvs: "kvs \<in> set entries" "en = JObj kvs" by auto
    with subj obtain ls where "dict_get kvs ''subject'' (JArr []) = JArr (map JObj ls)" by blast
    from events_of_entry_dicts [OF this, of "repr w" b d] kvs
    show "events_of_entry (repr w) b d en = Inr (g en)" by (simp add: g_def)
  qed
  have res: "fst (fetch_building_events b d c w) = Inr (concat (map g (map JObj entries)))"
    using fetch_ok_response [OF resp ok] events_of_data_entries [OF rsrv each] by simp
  have "length (g (JObj (entries ! j))) = length ls \<and>
        (\<forall>i<length ls.
           name (g (JObj (entries ! j)) ! i) = py_str (repr w) (dict_get (entries ! j) ''event_name'' (JStr [])) \<and>
           location (g (JObj (entries ! j)) ! i) = dict_get (ls ! i) ''itemName'' JNull \<and>
           startTime (g (JObj (entries ! j)) ! i) = dict_get (entries ! j) ''rsrv_start_dt'' JNull \<and>
           endTime (g (JObj (entries ! j)) ! i) = dict_get (entries ! j) ''rsrv_end_dt'' JNull \<and>
           date (g (JObj (entries ! j)) ! i) = d \<and> buildingID (g (JObj (entries ! j)) ! i) = b)"
    if "dict_get (entries ! j) ''subject'' (JArr []) = JArr (map JObj ls)" for j ls
    using events_of_entry_dicts [OF that, of "repr w" b d] by (simp add: g_def)
  with res show ?thesis
    by (intro exI [of _ "map g (map JObj entries)"]) simp
qed

theorem fetch_one_record_per_location_witness:
  "http world_two_rooms (get_url ''583852'' ''2025-01-06'')
       (''WSSESSIONID='' @ py_str (repr world_two_rooms) (JStr ''abc'')) = Response 200 (Body two_rooms) \<and>
   \<not> raises_for_status 200 \<and>
   rsrv_of two_rooms = Inr (JArr (map JObj two_rooms_entries)) \<and>
   (\<exists>ess. fst (fetch_building_events ''583852'' ''2025-01-06'' (JStr ''abc'') world_two_rooms) = Inr (concat ess) \<and>
           length ess = length two_rooms_entries \<and>
           (\<forall>j<length two_rooms_entries. \<forall>ls.
              dict_get (two_rooms_entries ! j) ''subject'' (JArr []) = JArr (map JObj ls) \<longrightarrow>
              length (ess ! j) = length ls \<and>
              (\<forall>i<length ls.
                 name (ess ! j ! i) = py_str (repr world_two_rooms) (dict_get (two_rooms_entries ! j) ''event_name'' (JStr [])) \<and>
                 location (ess ! j ! i) = dict_get (ls ! i) ''itemName'' JNull \<and>
                 startTime (ess ! j ! i) = dict_get (two_rooms_entries ! j) ''rsrv_start_dt'' JNull \<and>
                 endTime (ess ! j ! i) = dict_get (two_rooms_entries ! j) ''rsrv_end_dt'' JNull \<and>
                 date (ess ! j ! i) = ''2025-01-06'' \<and> buildingID (ess ! j ! i) = ''583852'')))"
proof -
  have h1: "http world_two_rooms (get_url ''583852'' ''2025-01-06'')
       (''WSSESSIONID='' @ py_str (repr world_two_rooms) (JStr ''abc'')) = Response 200 (Body two_rooms)"
    by (simp add: world_two_rooms_def world0_def)
  have h2: "\<not> raises_for_status 200" by (simp add: raises_for_status_def)
  have h3: "rsrv_of two_rooms = Inr (JArr (map JObj two_rooms_entries))"
    by (simp add: rsrv_of_def two_rooms_def two_rooms_entries_def dict_get_def)
  have s1: "dict_get (two_rooms_entries ! 0) ''subject'' (JArr []) =
            JArr (map JObj [[(''itemName'', JStr ''CUC 101'')], [(''itemName'', JStr ''CUC 102'')]])"
    by (simp add: two_rooms_entries_def dict_get_def)
  have s2: "dict_get (two_rooms_entries ! 1) ''subject'' (JArr []) = JArr (map JObj [])"
    by (simp add: two_rooms_entries_def dict_get_def)
  have h4: "\<forall>kvs\<in>set two_rooms_entries. \<exists>ls. dict_get kvs ''subject'' (JArr []) = JArr (map JObj ls)"
    using s1 s2 unfolding two_rooms_entries_def by (simp del: list.map) blast
  from fetch_one_record_per_location [OF h1 h2 h3 h4] h1 h2 h3 show ?thesis by blast
qed

lemma two_rooms_result:
  "fst (fetch_building_events ''583852'' ''2025-01-06'' (JStr ''abc'') world_two_rooms) =
   Inr [\<lparr>name = ''Seminar'', location = JStr ''CUC 101'', startTime = JStr ''2025-01-06T09:00:00'',
         endTime = JStr ''2025-01-06T10:00:00'', date = ''2025-01-06'', buildingID = ''583852''\<rparr>,
        \<lparr>name = ''Seminar'', location = JStr ''CUC 102'', startTime = JStr ''2025-01-06T09:00:00'',
         endTime = JStr ''2025-01-06T10:00:00'', date = ''2025-01-06'', buildingID = ''583852''\<rparr>]"
  by (simp add: fetch_building_events_def world_two_rooms_def world0_def two_rooms_def events_of_data_def rsrv_of_def
       events_of_entry_def make_event_def dict_get_def raises_for_status_def emit_def)

lemma rsrv_of_first_only:
  assumes "py_get data ''root'' (JObj []) = Inr r"
      and "py_get r ''events'' (JArr [JObj []]) = Inr (JArr (e # rest))"
  shows "rsrv_of data = py_get e ''rsrv'' JNull"
  using assms by (simp add: rsrv_of_def)

lemma rsrv_of_singleton:
  "rsrv_of (JObj [(''root'', JObj [(''events'', JArr [e])])]) = py_get e ''rsrv'' JNull"
  by (simp add: rsrv_of_def dict_get_def)

text \<open>
  Claim C10. Of the root's \<^verbatim>\<open>events\<close> list only the first element is read: the fetcher
  returns for a response what it returns for the same response with every later element
  of that list removed, so no reservation entry of a later element yields a record.
\<close>

theorem only_first_events_element_read:
  assumes resp: "http w (get_url b d) (''WSSESSIONID='' @ py_str (repr w) c) = Response st (Body data)"
      and ok: "\<not> raises_for_status st"
      and root: "py_get data ''root'' (JObj []) = Inr r"
      and evs: "py_get r ''events'' (JArr [JObj []]) = Inr (JArr (e # rest))"
  shows "fst (fetch_building_events b d c w) =
         fst (fetch_building_events b d c
                (w\<lparr>http := \<lambda>_ _. Response st (Body (JObj [(''root'', JObj [(''events'', JArr [e])])]))\<rparr>))"
proof -
  let ?w' = "w\<lparr>http := \<lambda>_ _. Response st (Body (JObj [(''root'', JObj [(''events'', JArr [e])])]))\<rparr>"
  have "fst (fetch_building_events b d c ?w') =
        events_of_data (repr w) b d (JObj [(''root'', JObj [(''events'', JArr [e])])])"
    using ok by (simp add: fetch_building_events_def Let_def)
  moreover have "events_of_data (repr w) b d (JObj [(''root'', JObj [(''events'', JArr [e])])]) =
                 events_of_data (repr w) b d data"
    using rsrv_of_first_only [OF root evs] rsrv_of_singleton [of e]
    by (simp add: events_of_data_def)
  ultimately show ?thesis using fetch_ok_response [OF resp ok] by simp
qed

lemma two_groups_result:
  "fst (fetch_building_events ''583852'' ''2025-01-06'' (JStr ''abc'') world_two_groups) =
   Inr [\<lparr>name = ''Seminar'', location = JStr ''CUC 101'', startTime = JStr ''2025-01-06T09:00:00'',
         endTime = JStr ''2025-01-06T10:00:00'', date = ''2025-01-06'', buildingID = ''583852''\<rparr>]"
  by (simp add: fetch_building_events_def world_two_groups_def world0_def two_event_groups_def
       events_of_data_def rsrv_of_def events_of_entry_def make_event_def dict_get_def
       raises_for_status_def emit_def)

theorem only_first_events_element_read_witness:
  "http world_two_groups (get_url ''583852'' ''2025-01-06'')
       (''WSSESSIONID='' @ py_str (repr world_two_groups) (JStr ''abc'')) =
     Response 200 (Body two_event_groups) \<and>
   \<not> raises_for_status 200 \<and>
   fst (fetch_building_events ''583852'' ''2025-01-06'' (JStr ''abc'') world_two_groups) =
   fst (fetch_building_events ''583852'' ''2025-01-06'' (JStr ''abc'')
          (world_two_groups\<lparr>http := \<lambda>_ _. Response 200 (Body (JObj [(''root'', JObj [(''events'', JArr [
        JObj [(''rsrv'', JArr [
          JObj [(''event_name'', JStr ''Seminar''),
                (''rsrv_start_dt'', JStr ''2025-01-06T09:00:00''),
                (''rsrv_end_dt'', JStr ''2025-01-06T10:00:00''),
                (''subject'', JArr [JObj [(''itemName'', JStr ''CUC 101'')]])]])]])])]))\<rparr>))"
proof -
  have h1: "http world_two_groups (get_url ''583852'' ''2025-01-06'')
       (''WSSESSIONID='' @ py_str (repr world_two_groups) (JStr ''abc'')) =
     Response 200 (Body two_event_groups)"
    by (simp add: world_two_groups_def world0_def)
  have h2: "\<not> raises_for_status 200" by (simp add: raises_for_status_def)
  have h3: "py_get two_event_groups ''root'' (JObj []) = Inr (dict_get [(''root'', JObj [(''events'', JArr [
        JObj [(''rsrv'', JArr [
          JObj [(''event_name'', JStr ''Seminar''),
                (''rsrv_start_dt'', JStr ''2025-01-06T09:00:00''),
                (''rsrv_end_dt'', JStr ''2025-01-06T10:00:00''),
                (''subject'', JArr [JObj [(''itemName'', JStr ''CUC 101'')]])]])],
        JObj [(''rsrv'', JArr [
          JObj [(''event_name'', JStr ''Lecture''),
                (''rsrv_start_dt'', JStr ''2025-01-06T11:00:00''),
                (''rsrv_end_dt'', JStr ''2025-01-06T12:00:00''),
                (''subject'', JArr [JObj [(''itemName'', JStr ''CUC 102'')]])]])]])])] ''root'' (JObj []))"
    by (simp add: two_event_groups_def)
  show ?thesis
    using only_first_events_element_read [OF h1 h2 h3] h1 h2 by (simp add: dict_get_def)
qed

text \<open>
  Claim C1. The claim asks for the empty list on every body of unexpected shape, an empty
  \<^verbatim>\<open>events\<close> list included. On the body \<^verbatim>\<open>{"root": {"events": []}}\<close> the index \<^verbatim>\<open>[0]\<close>
  raises \<^verbatim>\<open>IndexError\<close>, which neither \<^verbatim>\<open>except\<close> clause catches.
\<close>

theorem empty_events_list_raises:
  "fst (fetch_building_events ''583852'' ''2025-01-06'' (JStr ''abc'') world_empty_events) =
   Inl IndexError"
  by (simp add: fetch_building_events_def world_empty_events_def world0_def empty_events_def
       events_of_data_def rsrv_of_def dict_get_def raises_for_status_def)

lemma fetch_failure_is_empty:
  assumes "http w (get_url b d) (''WSSESSIONID='' @ py_str (repr w) c) = RequestException \<or>
           (\<exists>st bdy. http w (get_url b d) (''WSSESSIONID='' @ py_str (repr w) c) = Response st bdy \<and>
                      (raises_for_status st \<or> bdy = NoJSON))"
  shows "fst (fetch_building_events b d c w) = Inr []"
  using assms by (auto simp: fetch_building_events_def Let_def)

lemma missing_keys_are_empty:
  "events_of_data rp b d (JObj []) = Inr []"
  "events_of_data rp b d (JObj [(''root'', JObj [])]) = Inr []"
  "events_of_data rp b d (JObj [(''root'', JObj [(''events'', JArr [JObj []])])]) = Inr []"
  "events_of_data rp b d (JObj [(''root'', JObj [(''events'', JArr [JObj [(''rsrv'', JNull)]])])]) = Inr []"
  "events_of_data rp b d (JObj [(''root'', JObj [(''events'', JArr [JObj [(''rsrv'', JArr [])]])])]) = Inr []"
  by (simp_all add: events_of_data_def rsrv_of_def dict_get_def)

lemma unexpected_shapes_raise:
  "events_of_data rp b d (JArr []) = Inl AttributeError"
  "events_of_data rp b d (JObj [(''root'', JStr ''x'')]) = Inl AttributeError"
  "events_of_data rp b d (JObj [(''root'', JObj [(''events'', JArr [])])]) = Inl IndexError"
  "events_of_data rp b d (JObj [(''root'', JObj [(''events'', JNull)])]) = Inl TypeError"
  by (simp_all add: events_of_data_def rsrv_of_def dict_get_def)

subsection \<open>Harvesting the peer-capture file\<close>

lemma upper_char_equals [simp]: "upper_char (CHR ''='') = CHR ''=''"
  by (simp add: upper_char_def)

lemma upper_char_is_equals: "upper_char c = CHR ''='' \<Longrightarrow> c = CHR ''=''"
  by (auto simp: upper_char_def split: option.splits if_splits)

lemma split_once_at:
  assumes "\<forall>x\<in>set a. x \<noteq> sep"
  shows "split_once sep (a @ sep # rest) = [a, rest]"
  using assms by (simp add: split_once_def takeWhile_append2 dropWhile_append2)

lemma name_prefix_value:
  assumes "startswith (upper p) ''WSSESSIONID=''"
  shows "py_item1 (split_once (CHR ''='') p) = Inr (drop 12 p)"
proof -
  have "length ''WSSESSIONID='' = 12" by simp
  with assms have tk: "take 12 (map upper_char p) = ''WSSESSIONID=''"
    unfolding startswith_def upper_def by (simp only:)
  then have "length (take 12 (map upper_char p)) = 12" by simp
  then have len: "12 \<le> length p" by simp
  from tk have "take 11 (take 12 (map upper_char p)) = take 11 ''WSSESSIONID=''" by simp
  then have t11: "map upper_char (take 11 p) = ''WSSESSIONID''"
    by (simp add: take_map)
  have "\<forall>x\<in>set (take 11 p). x \<noteq> CHR ''=''"
  proof
    fix x assume "x \<in> set (take 11 p)"
    then have "upper_char x \<in> set (map upper_char (take 11 p))" by simp
    then have "upper_char x \<in> set ''WSSESSIONID''" by (simp only: t11)
    then show "x \<noteq> CHR ''=''" by auto
  qed
  moreover have "p ! 11 = CHR ''=''"
  proof -
    from tk have "take 12 (map upper_char p) ! 11 = ''WSSESSIONID='' ! 11" by simp
    then have "upper_char (p ! 11) = CHR ''=''" using len by simp
    then show ?thesis by (rule upper_char_is_equals)
  qed
  moreover have "p = take 11 p @ p ! 11 # drop 12 p"
    using len id_take_nth_drop [of 11 p] by simp
  ultimately have "split_once (CHR ''='') p = [take 11 p, drop 12 p]"
    using split_once_at [of "take 11 p" "CHR ''=''" "drop 12 p"] by simp
  then show ?thesis by simp
qed

lemma scan_cookie_parts_spec:
  "scan_cookie_parts parts =
     (case filter (\<lambda>p. startswith (upper p) ''WSSESSIONID='' \<and> drop 12 p \<noteq> []) (map strip parts) of
        [] \<Rightarrow> Inr JNull
      | p # _ \<Rightarrow> Inr (JStr (drop 12 p)))"
  by (induction parts) (simp_all add: Let_def name_prefix_value)


lemma load_search_results_dict:
  assumes "fs w SEARCH_COOKIES_FILE = JSON (JObj kvs)"
      and "dict_get kvs PREFERRED_COOKIE_KEY JNull = JObj ekvs"
      and "dict_get ekvs ''cookies'' JNull = JStr s"
  shows "fst (load_cookie_from_search_results w) =
         (if s = [] then Inr JNull else scan_cookie_parts (split_on (CHR '';'') s))"
proof -
  from assms(3) have "ekvs \<noteq> []" by (auto simp: dict_get_def)
  with assms show ?thesis
    by (simp add: load_cookie_from_search_results_def Let_def)
qed

lemma scan_empty_string: "scan_cookie_parts (split_on (CHR '';'') []) = Inr JNull"
  by (simp add: strip_def startswith_def upper_def)

text \<open>
  Claim C6. When the peer-capture file holds a dict whose preferred entry is a dict with a
  string under \<^verbatim>\<open>cookies\<close>, the harvest is the value of the first part of that string,
  split at \<^verbatim>\<open>;\<close> and stripped, whose first twelve characters are the cookie's name and
  \<^verbatim>\<open>=\<close> in any case and whose remainder is not empty; it is \<^verbatim>\<open>None\<close> when there is no such
  part. The two strings of the specification give \<^verbatim>\<open>abc123\<close>.
\<close>

theorem peer_capture_harvest:
  assumes "fs w SEARCH_COOKIES_FILE = JSON (JObj kvs)"
      and "dict_get kvs PREFERRED_COOKIE_KEY JNull = JObj ekvs"
      and "dict_get ekvs ''cookies'' JNull = JStr s"
  shows "fst (load_cookie_from_search_results w) =
           (case filter (\<lambda>p. startswith (upper p) ''WSSESSIONID='' \<and> drop 12 p \<noteq> [])
                        (map strip (split_on (CHR '';'') s)) of
              [] \<Rightarrow> Inr JNull
            | p # _ \<Rightarrow> Inr (JStr (drop 12 p))) \<and>
         ((\<forall>p\<in>set (split_on (CHR '';'') s).
              \<not> startswith (upper (strip p)) ''WSSESSIONID='' \<or> drop 12 (strip p) = []) \<longrightarrow>
            fst (load_cookie_from_search_results w) = Inr JNull) \<and>
         scan_cookie_parts (split_on (CHR '';'') ''A=1; WSSESSIONID=abc123; B=2'') = Inr (JStr ''abc123'') \<and>
         scan_cookie_parts (split_on (CHR '';'') ''A=1; wssessionid=abc123; B=2'') = Inr (JStr ''abc123'')"
proof -
  have main: "fst (load_cookie_from_search_results w) =
           (case filter (\<lambda>p. startswith (upper p) ''WSSESSIONID='' \<and> drop 12 p \<noteq> [])
                        (map strip (split_on (CHR '';'') s)) of
              [] \<Rightarrow> Inr JNull
            | p # _ \<Rightarrow> Inr (JStr (drop 12 p)))"
  proof (cases "s = []")
    case True
    with load_search_results_dict [OF assms] scan_empty_string scan_cookie_parts_spec [of "split_on (CHR '';'') []"]
    show ?thesis by simp
  next
    case False
    with load_search_results_dict [OF assms] scan_cookie_parts_spec [of "split_on (CHR '';'') s"]
    show ?thesis by simp
  qed
  have none: "fst (load_cookie_from_search_results w) = Inr JNull"
    if "\<forall>p\<in>set (split_on (CHR '';'') s).
              \<not> startswith (upper (strip p)) ''WSSESSIONID='' \<or> drop 12 (strip p) = []"
  proof -
    from that have "filter (\<lambda>p. startswith (upper p) ''WSSESSIONID='' \<and> drop 12 p \<noteq> [])
                        (map strip (split_on (CHR '';'') s)) = []"
      by (auto simp: filter_empty_conv)
    with main show ?thesis by simp
  qed
  have ex1: "scan_cookie_parts (split_on (CHR '';'') ''A=1; WSSESSIONID=abc123; B=2'') = Inr (JStr ''abc123'')"
    by (simp add: strip_def is_space_def upper_def upper_char_def startswith_def split_once_def)
  have ex2: "scan_cookie_parts (split_on (CHR '';'') ''A=1; wssessionid=abc123; B=2'') = Inr (JStr ''abc123'')"
    by (simp add: strip_def is_space_def upper_def upper_char_def startswith_def split_once_def)
  from main none ex1 ex2 show ?thesis by blast
qed

theorem peer_capture_harvest_witness:
  "fs (world_peer_capture ''A=1; WSSESSIONID=abc123; B=2'') SEARCH_COOKIES_FILE =
     JSON (peer_capture ''A=1; WSSESSIONID=abc123; B=2'') \<and>
   fst (load_cookie_from_search_results (world_peer_capture ''A=1; WSSESSIONID=abc123; B=2'')) =
     Inr (JStr ''abc123'')"
proof -
  let ?w = "world_peer_capture ''A=1; WSSESSIONID=abc123; B=2''"
  have h1: "fs ?w SEARCH_COOKIES_FILE =
     JSON (JObj [(''athletics'', JObj [(''url'', JStr ''https://25live.collegenet.com/''),
                                       (''cookies'', JStr ''A=1; WSSESSIONID=abc123; B=2'')])])"
    by (simp add: world_peer_capture_def peer_capture_def world0_def)
  have h2: "dict_get [(''athletics'', JObj [(''url'', JStr ''https://25live.collegenet.com/''),
                                       (''cookies'', JStr ''A=1; WSSESSIONID=abc123; B=2'')])]
              PREFERRED_COOKIE_KEY JNull =
            JObj [(''url'', JStr ''https://25live.collegenet.com/''),
                  (''cookies'', JStr ''A=1; WSSESSIONID=abc123; B=2'')]"
    by (simp add: dict_get_def PREFERRED_COOKIE_KEY_def)
  have h3: "dict_get [(''url'', JStr ''https://25live.collegenet.com/''),
                  (''cookies'', JStr ''A=1; WSSESSIONID=abc123; B=2'')] ''cookies'' JNull =
            JStr ''A=1; WSSESSIONID=abc123; B=2''"
    by (simp add: dict_get_def)
  have "fst (load_cookie_from_search_results ?w) = Inr (JStr ''abc123'')"
    using peer_capture_harvest [OF h1 h2 h3]
    by (simp add: strip_def is_space_def upper_def upper_char_def startswith_def)
  with h1 show ?thesis by (simp add: peer_capture_def)
qed

lemma harvest_lowercase_name:
  "fst (load_cookie_from_search_results (world_peer_capture ''wssessionid=abc123'')) =
     Inr (JStr ''abc123'')"
  by (simp add: load_cookie_from_search_results_def world_peer_capture_def peer_capture_def world0_def
        dict_get_def PREFERRED_COOKIE_KEY_def SEARCH_COOKIES_FILE_def emit_def
        strip_def is_space_def upper_def upper_char_def startswith_def split_once_def)

lemma harvest_skips_empty_value:
  "fst (load_cookie_from_search_results (world_peer_capture ''WSSESSIONID=; wssessionid=later'')) =
     Inr (JStr ''later'')"
  "fst (load_cookie_from_search_results (world_peer_capture ''A=1; WSSESSIONID='')) = Inr JNull"
  "fst (load_cookie_from_search_results (world_peer_capture ''A=1; B=2'')) = Inr JNull"
  by (simp_all add: load_cookie_from_search_results_def world_peer_capture_def peer_capture_def world0_def
        dict_get_def PREFERRED_COOKIE_KEY_def SEARCH_COOKIES_FILE_def emit_def
        strip_def is_space_def upper_def upper_char_def startswith_def split_once_def)

text \<open>The definitions that evaluate the sample worlds.\<close>

lemmas sample_eval =
  world_store_def world0_def stored_credential_def COOKIE_FILE_def SEARCH_COOKIES_FILE_def
  dict_get_def parse_datetime_def endswith_def sample_fromisoformat_def field_def digit_value_def
  days_in_month_def DAYS_IN_MONTH_def DAYS_BEFORE_MONTH_def is_leap_def datetime_sub_def
  datetime_now_def micros_of_def toordinal_def ymd2ord_def days_before_year_def
  days_before_month_def COOKIE_MAX_AGE_HOURS_def emit_def Let_def

subsection \<open>The credential store and the fallback chain\<close>

lemma load_cookie_from_disk_none:
  "fs w COOKIE_FILE = Missing \<Longrightarrow> fst (load_cookie_from_disk w) = Inr JNull"
  "fs w COOKIE_FILE = NotJSON \<Longrightarrow> fst (load_cookie_from_disk w) = Inr JNull"
  "fs w COOKIE_FILE = JSON (JObj kvs) \<Longrightarrow> \<not> truthy (dict_get kvs ''WSSESSIONID'' JNull) \<Longrightarrow>
     fst (load_cookie_from_disk w) = Inr JNull"
  "fs w COOKIE_FILE = JSON (JObj kvs) \<Longrightarrow> \<not> truthy (dict_get kvs ''extracted_at'' JNull) \<Longrightarrow>
     fst (load_cookie_from_disk w) = Inr JNull"
  "fs w COOKIE_FILE = JSON (JObj kvs) \<Longrightarrow>
     parse_datetime w (dict_get kvs ''extracted_at'' JNull) = None \<Longrightarrow>
     fst (load_cookie_from_disk w) = Inr JNull"
  by (simp_all add: load_cookie_from_disk_def Let_def)

lemma load_cookie_from_disk_raises:
  "fs w COOKIE_FILE = Unreadable \<Longrightarrow> fst (load_cookie_from_disk w) = Inl OSError"
  "fs w COOKIE_FILE = JSON (JArr xs) \<Longrightarrow> fst (load_cookie_from_disk w) = Inl AttributeError"
  "fs w COOKIE_FILE = JSON JNull \<Longrightarrow> fst (load_cookie_from_disk w) = Inl AttributeError"
  "fs w COOKIE_FILE = JSON (JStr s) \<Longrightarrow> fst (load_cookie_from_disk w) = Inl AttributeError"
  by (simp_all add: load_cookie_from_disk_def Let_def)

lemma load_cookie_from_disk_aware:
  assumes "fs w COOKIE_FILE = JSON (JObj kvs)"
      and "truthy (dict_get kvs ''WSSESSIONID'' JNull)"
      and "truthy (dict_get kvs ''extracted_at'' JNull)"
      and "parse_datetime w (dict_get kvs ''extracted_at'' JNull) = Some dt"
      and "tzinfo dt = Some off"
  shows "fst (load_cookie_from_disk w) = Inl TypeError"
  using assms by (simp add: load_cookie_from_disk_def Let_def datetime_sub_def datetime_now_def)

lemma load_cookie_from_disk_naive:
  assumes "fs w COOKIE_FILE = JSON (JObj kvs)"
      and "truthy (dict_get kvs ''WSSESSIONID'' JNull)"
      and "truthy (dict_get kvs ''extracted_at'' JNull)"
      and "parse_datetime w (dict_get kvs ''extracted_at'' JNull) = Some dt"
      and "tzinfo dt = None"
  shows "fst (load_cookie_from_disk w) =
           (if micros_of (datetime_now w) - micros_of dt < 12 * 3600 * 1000000
            then Inr (dict_get kvs ''WSSESSIONID'' JNull) else Inr JNull)"
  using assms
  by (simp add: load_cookie_from_disk_def Let_def datetime_sub_def datetime_now_def
        COOKIE_MAX_AGE_HOURS_def)

lemma load_cookie_from_disk_trace:
  "trace (snd (load_cookie_from_disk w)) =
     trace w @ (if fs w COOKIE_FILE = Missing then [PathExists COOKIE_FILE]
                else [PathExists COOKIE_FILE, ReadText COOKIE_FILE])"
  by (simp add: load_cookie_from_disk_def Let_def emit_def)

lemma load_cookie_from_search_results_trace:
  "trace (snd (load_cookie_from_search_results w)) =
     trace w @ (if fs w SEARCH_COOKIES_FILE = Missing then [PathExists SEARCH_COOKIES_FILE]
                else [PathExists SEARCH_COOKIES_FILE, ReadText SEARCH_COOKIES_FILE])"
  by (simp add: load_cookie_from_search_results_def Let_def emit_def)


lemma disk_shape:
  "\<exists>d. trace (snd (load_cookie_from_disk w)) = trace w @ d \<and> d \<noteq> [] \<and>
       list_all is_disk_effect d \<and> \<not> list_ex is_search_effect d \<and> \<not> list_ex is_extractor_effect d"
  by (simp add: load_cookie_from_disk_trace is_disk_effect_def is_search_effect_def
        COOKIE_FILE_def SEARCH_COOKIES_FILE_def candidates_def)

lemma search_shape:
  "\<exists>s. trace (snd (load_cookie_from_search_results w)) = trace w @ s \<and> s \<noteq> [] \<and>
       list_all is_search_effect s \<and> \<not> list_ex is_extractor_effect s"
  by (simp add: load_cookie_from_search_results_trace is_search_effect_def
        SEARCH_COOKIES_FILE_def candidates_def)

lemma find_first_shape:
  "\<exists>x. trace (snd (find_first cs w)) = trace w @ x \<and> set x \<subseteq> PathExists ` set cs \<and>
       (cs \<noteq> [] \<longrightarrow> x \<noteq> [])"
proof (induction cs arbitrary: w)
  case Nil
  then show ?case by simp
next
  case (Cons c cs)
  show ?case
  proof (cases "fs w c \<noteq> Missing")
    case True
    then show ?thesis by (simp add: Let_def emit_def)
  next
    case False
    from Cons [of "emit (PathExists c) w"] obtain x where
      "trace (snd (find_first cs (emit (PathExists c) w))) = trace (emit (PathExists c) w) @ x"
      "set x \<subseteq> PathExists ` set cs" by blast
    with False show ?thesis by (auto simp: Let_def emit_def)
  qed
qed

lemma run_shape:
  "\<exists>x. trace (snd (run_cookie_script w)) = trace w @ x \<and> x \<noteq> [] \<and>
       list_all is_extractor_effect x \<and> \<not> list_ex is_search_effect x"
proof -
  obtain r w1 where f: "find_cookie_script w = (r, w1)" by (cases "find_cookie_script w") auto
  from find_first_shape [of candidates w] f obtain x where
    x: "trace w1 = trace w @ x" "set x \<subseteq> PathExists ` set candidates" "x \<noteq> []"
    by (auto simp: find_cookie_script_def candidates_def)
  from x(2) have ext: "list_all is_extractor_effect x" by (auto simp: list_all_iff)
  from x(2) have nos: "\<not> list_ex is_search_effect x"
    by (auto simp: list_ex_iff is_search_effect_def candidates_def SEARCH_COOKIES_FILE_def)
  show ?thesis
  proof (cases r)
    case (Inl e)
    with f x ext nos show ?thesis by (simp add: run_cookie_script_def)
  next
    case (Inr script)
    with f x ext nos show ?thesis
      by (auto simp: run_cookie_script_def Let_def emit_def is_search_effect_def)
  qed
qed


lemma effects_of_append: "trace w' = trace w @ es \<Longrightarrow> effects_of w w' = es"
  by (simp add: effects_of_def)

lemma disk_not_other:
  "list_all is_disk_effect d \<Longrightarrow> \<not> list_ex is_search_effect d \<and> \<not> list_ex is_extractor_effect d"
  by (auto simp: list_all_iff list_ex_iff is_disk_effect_def is_search_effect_def
        COOKIE_FILE_def SEARCH_COOKIES_FILE_def candidates_def)

lemma search_not_extractor:
  "list_all is_search_effect s \<Longrightarrow> \<not> list_ex is_extractor_effect s"
  by (auto simp: list_all_iff list_ex_iff is_search_effect_def
        SEARCH_COOKIES_FILE_def candidates_def)

lemma find_first_error: "fst (find_first cs w) = Inl e \<Longrightarrow> e = FileNotFoundError"
  by (induction cs arbitrary: w) (auto simp: Let_def split: if_splits)

lemma find_first_paths:
  "\<exists>p. trace (snd (find_first cs w)) = trace w @ p \<and> set p \<subseteq> PathExists ` set cs \<and>
       (cs \<noteq> [] \<longrightarrow> p \<noteq> [] \<and> hd p = PathExists (hd cs))"
proof (cases cs)
  case Nil
  then show ?thesis by simp
next
  case (Cons c cs')
  show ?thesis
  proof (cases "fs w c \<noteq> Missing")
    case True
    with Cons show ?thesis by (simp add: Let_def emit_def)
  next
    case False
    from find_first_shape [of cs' "emit (PathExists c) w"] obtain x where
      "trace (snd (find_first cs' (emit (PathExists c) w))) = trace (emit (PathExists c) w) @ x"
      "set x \<subseteq> PathExists ` set cs'" by blast
    with False Cons show ?thesis by (auto simp: Let_def emit_def)
  qed
qed

lemma run_cookie_script_effects:
  "\<exists>p. p \<noteq> [] \<and> hd p = PathExists (hd candidates) \<and> set p \<subseteq> PathExists ` set candidates \<and>
       (\<forall>e. fst (find_cookie_script w) = Inl e \<longrightarrow>
            fst (run_cookie_script w) = Inl FileNotFoundError \<and>
            trace (snd (run_cookie_script w)) = trace w @ p) \<and>
       (\<forall>sc. fst (find_cookie_script w) = Inr sc \<longrightarrow>
            trace (snd (run_cookie_script w)) = trace w @ p @ [SubprocessRun sc])"
proof -
  obtain r w1 where f: "find_cookie_script w = (r, w1)" by (cases "find_cookie_script w") auto
  from find_first_paths [of candidates w] f obtain p where
    p: "trace w1 = trace w @ p" "set p \<subseteq> PathExists ` set candidates" "p \<noteq> []"
       "hd p = PathExists (hd candidates)"
    by (auto simp: find_cookie_script_def candidates_def)
  have err: "r = Inl e \<Longrightarrow> e = FileNotFoundError" for e
    using find_first_error [of candidates w e] f by (simp add: find_cookie_script_def)
  show ?thesis
  proof (cases r)
    case (Inl e)
    with f p err [of e] show ?thesis
      by (intro exI [of _ p]) (simp add: run_cookie_script_def)
  next
    case (Inr sc)
    with f p show ?thesis
      by (intro exI [of _ p]) (auto simp: run_cookie_script_def Let_def emit_def)
  qed
qed


lemma no_subprocess_in_disk: "list_all is_disk_effect d \<Longrightarrow> filter is_subprocess d = []"
  by (induction d) (auto simp: is_disk_effect_def)

lemma no_subprocess_in_search: "list_all is_search_effect s \<Longrightarrow> filter is_subprocess s = []"
  by (induction s) (auto simp: is_search_effect_def)

lemma no_subprocess_in_paths: "set p \<subseteq> PathExists ` S \<Longrightarrow> filter is_subprocess p = []"
  by (induction p) auto

lemma paths_are_extractor_effects:
  "set p \<subseteq> PathExists ` set candidates \<Longrightarrow> list_all is_extractor_effect p"
  by (auto simp: list_all_iff)

text \<open>
  The effects of a run of the chain, tier by tier: when the disk load returns a
  credential, it is the result and the run has touched the credential store only; when
  the peer-capture harvest returns one, it is the result and no extractor path was
  checked and no subprocess run; in every run the effects are those of the disk tier,
  then those of the peer-capture tier, then the rest, which begins with an effect of the
  extractor tier, comes only after the peer-capture file was consulted, and never touches
  that file again.
\<close>

lemma fallback_effects_in_tier_order:
  "(\<forall>c. fst (load_cookie_from_disk w) = Inr c \<and> truthy c \<longrightarrow>
        fst (get_wssessionid w) = Inr c \<and>
        list_all is_disk_effect (effects_of w (snd (get_wssessionid w))) \<and>
        \<not> list_ex is_search_effect (effects_of w (snd (get_wssessionid w))) \<and>
        \<not> list_ex is_extractor_effect (effects_of w (snd (get_wssessionid w)))) \<and>
   (\<forall>c1 c2. fst (load_cookie_from_disk w) = Inr c1 \<and> \<not> truthy c1 \<and>
        fst (load_cookie_from_search_results (snd (load_cookie_from_disk w))) = Inr c2 \<and> truthy c2 \<longrightarrow>
        fst (get_wssessionid w) = Inr c2 \<and>
        \<not> list_ex is_extractor_effect (effects_of w (snd (get_wssessionid w)))) \<and>
   (\<exists>d s x. effects_of w (snd (get_wssessionid w)) = d @ s @ x \<and> d \<noteq> [] \<and>
        list_all is_disk_effect d \<and> list_all is_search_effect s \<and>
        \<not> list_ex is_search_effect x \<and>
        (x \<noteq> [] \<longrightarrow> s \<noteq> [] \<and> is_extractor_effect (hd x)))"
proof -
  obtain r1 w1 where l1: "load_cookie_from_disk w = (r1, w1)"
    by (cases "load_cookie_from_disk w") auto
  from disk_shape [of w] l1 obtain d where
    d: "trace w1 = trace w @ d" "d \<noteq> []" "list_all is_disk_effect d" by auto
  note nd = disk_not_other [OF d(3)]
  show ?thesis
  proof (cases "\<exists>c. r1 = Inr c \<and> \<not> truthy c")
    case False
    then have g: "get_wssessionid w = (r1, w1)"
      using l1 by (cases r1) (auto simp: get_wssessionid_def)
    have e: "effects_of w (snd (get_wssessionid w)) = d @ [] @ []"
      using g d(1) by (simp add: effects_of_append)
    have third: "\<exists>d s x. effects_of w (snd (get_wssessionid w)) = d @ s @ x \<and> d \<noteq> [] \<and>
        list_all is_disk_effect d \<and> list_all is_search_effect s \<and>
        \<not> list_ex is_search_effect x \<and>
        (x \<noteq> [] \<longrightarrow> s \<noteq> [] \<and> is_extractor_effect (hd x))"
      using e d by (intro exI [of _ d] exI [of _ "[]"]) simp
    from False l1 g e d nd third show ?thesis by auto
  next
    case True
    then obtain c1 where c1: "r1 = Inr c1" "\<not> truthy c1" by blast
    obtain r2 w2 where l2: "load_cookie_from_search_results w1 = (r2, w2)"
      by (cases "load_cookie_from_search_results w1") auto
    from search_shape [of w1] l2 obtain s where
      s: "trace w2 = trace w1 @ s" "s \<noteq> []" "list_all is_search_effect s" by auto
    note ns = search_not_extractor [OF s(3)]
    show ?thesis
    proof (cases "\<exists>c. r2 = Inr c \<and> \<not> truthy c")
      case False
      then have g: "get_wssessionid w = (r2, w2)"
        using l1 l2 c1 by (cases r2) (auto simp: get_wssessionid_def)
      have e: "effects_of w (snd (get_wssessionid w)) = d @ s @ []"
        using g d(1) s(1) by (simp add: effects_of_append)
      have third: "\<exists>d s x. effects_of w (snd (get_wssessionid w)) = d @ s @ x \<and> d \<noteq> [] \<and>
          list_all is_disk_effect d \<and> list_all is_search_effect s \<and>
          \<not> list_ex is_search_effect x \<and>
          (x \<noteq> [] \<longrightarrow> s \<noteq> [] \<and> is_extractor_effect (hd x))"
        using e d s by (intro exI [of _ d] exI [of _ s] exI [of _ "[]"]) simp
      have noext: "\<not> list_ex is_extractor_effect (effects_of w (snd (get_wssessionid w)))"
        using e nd ns by (auto simp: list_ex_iff)
      from l1 l2 c1 g noext third show ?thesis by auto
    next
      case True
      then obtain c2 where c2: "r2 = Inr c2" "\<not> truthy c2" by blast
      obtain r3 w3 where l3: "run_cookie_script w2 = (r3, w3)"
        by (cases "run_cookie_script w2") auto
      from run_shape [of w2] l3 obtain x3 where
        x3: "trace w3 = trace w2 @ x3" "x3 \<noteq> []" "list_all is_extractor_effect x3"
            "\<not> list_ex is_search_effect x3" by auto
      obtain r4 w4 where l4: "load_cookie_from_disk w3 = (r4, w4)"
        by (cases "load_cookie_from_disk w3") auto
      from disk_shape [of w3] l4 obtain d4 where
        d4: "trace w4 = trace w3 @ d4" "list_all is_disk_effect d4" by auto
      note nd4 = disk_not_other [OF d4(2)]
      have hd3: "is_extractor_effect (hd x3)" using x3(2,3) by (cases x3) auto
      have "\<exists>x. effects_of w (snd (get_wssessionid w)) = d @ s @ x \<and> x \<noteq> [] \<and>
                 \<not> list_ex is_search_effect x \<and> is_extractor_effect (hd x)"
      proof (cases r3)
        case (Inl e)
        then have "get_wssessionid w = (Inl e, w3)"
          using l1 l2 l3 c1 c2 by (simp add: get_wssessionid_def)
        then have "effects_of w (snd (get_wssessionid w)) = d @ s @ x3"
          using d(1) s(1) x3(1) by (simp add: effects_of_append)
        with x3 hd3 show ?thesis by blast
      next
        case (Inr u)
        then have "snd (get_wssessionid w) = w4"
          using l1 l2 l3 l4 c1 c2 by (cases r4) (auto simp: get_wssessionid_def)
        then have "effects_of w (snd (get_wssessionid w)) = d @ s @ (x3 @ d4)"
          using d(1) s(1) x3(1) d4(1) by (simp add: effects_of_append)
        moreover have "\<not> list_ex is_search_effect (x3 @ d4)"
          using x3(4) nd4 by (auto simp: list_ex_iff)
        moreover have "is_extractor_effect (hd (x3 @ d4))" using hd3 x3(2) by simp
        ultimately show ?thesis using x3(2) by blast
      qed
      then have third: "\<exists>d s x. effects_of w (snd (get_wssessionid w)) = d @ s @ x \<and> d \<noteq> [] \<and>
          list_all is_disk_effect d \<and> list_all is_search_effect s \<and>
          \<not> list_ex is_search_effect x \<and>
          (x \<noteq> [] \<longrightarrow> s \<noteq> [] \<and> is_extractor_effect (hd x))"
        using d s by blast
      from l1 l2 c1 c2 third show ?thesis by auto
    qed
  qed
qed


text \<open>
  Which tier is attempted when: the peer-capture file is consulted exactly when the disk
  load returns nothing, and the extractor tier is entered exactly when the peer-capture
  harvest returns nothing too; then the program that \<^verbatim>\<open>_find_cookie_script\<close> returns is
  run, once, and when it finds none the chain ends with \<^verbatim>\<open>FileNotFoundError\<close> and no
  subprocess; when the program exits with status 0 and the reloaded store holds a
  credential, that credential is the result.
\<close>

lemma fallback_tiers_attempted:
  "(list_ex is_search_effect (effects_of w (snd (get_wssessionid w))) \<longleftrightarrow>
      (\<exists>c. fst (load_cookie_from_disk w) = Inr c \<and> \<not> truthy c)) \<and>
   (list_ex is_extractor_effect (effects_of w (snd (get_wssessionid w))) \<longleftrightarrow>
      (\<exists>c1 c2. fst (load_cookie_from_disk w) = Inr c1 \<and> \<not> truthy c1 \<and>
         fst (load_cookie_from_search_results (snd (load_cookie_from_disk w))) = Inr c2 \<and>
         \<not> truthy c2)) \<and>
   (\<forall>c1 c2. fst (load_cookie_from_disk w) = Inr c1 \<and> \<not> truthy c1 \<and>
      fst (load_cookie_from_search_results (snd (load_cookie_from_disk w))) = Inr c2 \<and>
      \<not> truthy c2 \<longrightarrow>
      (\<forall>sc. fst (find_cookie_script
                (snd (load_cookie_from_search_results (snd (load_cookie_from_disk w))))) = Inr sc \<longrightarrow>
         filter is_subprocess (effects_of w (snd (get_wssessionid w))) = [SubprocessRun sc]) \<and>
      (\<forall>e. fst (find_cookie_script
                (snd (load_cookie_from_search_results (snd (load_cookie_from_disk w))))) = Inl e \<longrightarrow>
         fst (get_wssessionid w) = Inl FileNotFoundError \<and>
         filter is_subprocess (effects_of w (snd (get_wssessionid w))) = []) \<and>
      (\<forall>c. fst (run_cookie_script
                (snd (load_cookie_from_search_results (snd (load_cookie_from_disk w))))) = Inr () \<and>
           fst (load_cookie_from_disk (snd (run_cookie_script
                (snd (load_cookie_from_search_results (snd (load_cookie_from_disk w))))))) = Inr c \<and>
           truthy c \<longrightarrow>
         fst (get_wssessionid w) = Inr c))"
proof -
  obtain r1 w1 where l1: "load_cookie_from_disk w = (r1, w1)"
    by (cases "load_cookie_from_disk w") auto
  from disk_shape [of w] l1 obtain d where
    d: "trace w1 = trace w @ d" "d \<noteq> []" "list_all is_disk_effect d" by auto
  note nd = disk_not_other [OF d(3)]
  show ?thesis
  proof (cases "\<exists>c. r1 = Inr c \<and> \<not> truthy c")
    case False
    then have g: "get_wssessionid w = (r1, w1)"
      using l1 by (cases r1) (auto simp: get_wssessionid_def)
    have e: "effects_of w (snd (get_wssessionid w)) = d"
      using g d(1) by (simp add: effects_of_append)
    from False l1 e nd show ?thesis by auto
  next
    case True
    then obtain c1 where c1: "r1 = Inr c1" "\<not> truthy c1" by blast
    obtain r2 w2 where l2: "load_cookie_from_search_results w1 = (r2, w2)"
      by (cases "load_cookie_from_search_results w1") auto
    from search_shape [of w1] l2 obtain s where
      s: "trace w2 = trace w1 @ s" "s \<noteq> []" "list_all is_search_effect s" by auto
    note ns = search_not_extractor [OF s(3)]
    from s(2,3) have exs: "list_ex is_search_effect s" by (cases s) auto
    show ?thesis
    proof (cases "\<exists>c. r2 = Inr c \<and> \<not> truthy c")
      case False
      then have g: "get_wssessionid w = (r2, w2)"
        using l1 l2 c1 by (cases r2) (auto simp: get_wssessionid_def)
      have e: "effects_of w (snd (get_wssessionid w)) = d @ s"
        using g d(1) s(1) by (simp add: effects_of_append)
      have a: "list_ex is_search_effect (effects_of w (snd (get_wssessionid w)))"
        using e exs by (auto simp: list_ex_iff)
      have b: "\<not> list_ex is_extractor_effect (effects_of w (snd (get_wssessionid w)))"
        using e nd ns by (auto simp: list_ex_iff)
      from False l1 l2 c1 a b show ?thesis by auto
    next
      case True
      then obtain c2 where c2: "r2 = Inr c2" "\<not> truthy c2" by blast
      obtain r3 w3 where l3: "run_cookie_script w2 = (r3, w3)"
        by (cases "run_cookie_script w2") auto
      from run_cookie_script_effects [of w2] l3 obtain p where
        p: "p \<noteq> []" "set p \<subseteq> PathExists ` set candidates"
           "\<And>e. fst (find_cookie_script w2) = Inl e \<Longrightarrow> r3 = Inl FileNotFoundError \<and> trace w3 = trace w2 @ p"
           "\<And>sc. fst (find_cookie_script w2) = Inr sc \<Longrightarrow> trace w3 = trace w2 @ p @ [SubprocessRun sc]"
        by auto
      note pe = paths_are_extractor_effects [OF p(2)]
      from p(1) pe have exp: "list_ex is_extractor_effect p" by (cases p) auto
      obtain r4 w4 where l4: "load_cookie_from_disk w3 = (r4, w4)"
        by (cases "load_cookie_from_disk w3") auto
      from disk_shape [of w3] l4 obtain d4 where
        d4: "trace w4 = trace w3 @ d4" "list_all is_disk_effect d4" by auto
      have fin: "snd (get_wssessionid w) = (case r3 of Inl e \<Rightarrow> w3 | Inr u \<Rightarrow> w4)"
        using l1 l2 l3 l4 c1 c2 by (auto simp: get_wssessionid_def split: sum.splits)
      have a: "list_ex is_search_effect (effects_of w (snd (get_wssessionid w)))"
       and b: "list_ex is_extractor_effect (effects_of w (snd (get_wssessionid w)))"
       and c: "fst (find_cookie_script w2) = Inr sc \<Longrightarrow>
                 filter is_subprocess (effects_of w (snd (get_wssessionid w))) = [SubprocessRun sc]"
       and e: "fst (find_cookie_script w2) = Inl e \<Longrightarrow>
                 fst (get_wssessionid w) = Inl FileNotFoundError \<and>
                 filter is_subprocess (effects_of w (snd (get_wssessionid w))) = []" for sc e
      proof -
        have "\<exists>x y. effects_of w (snd (get_wssessionid w)) = d @ s @ p @ x @ y \<and>
                list_all is_disk_effect y \<and>
                (\<forall>sc. fst (find_cookie_script w2) = Inr sc \<longrightarrow> x = [SubprocessRun sc]) \<and>
                (\<forall>e. fst (find_cookie_script w2) = Inl e \<longrightarrow>
                   x = [] \<and> y = [] \<and> fst (get_wssessionid w) = Inl FileNotFoundError)"
        proof (cases "fst (find_cookie_script w2)")
          case (Inl e')
          from p(3) [OF Inl] have r3: "r3 = Inl FileNotFoundError" and t3: "trace w3 = trace w2 @ p"
            by auto
          from r3 have "get_wssessionid w = (Inl FileNotFoundError, w3)"
            using l1 l2 l3 c1 c2 by (simp add: get_wssessionid_def)
          then have "effects_of w (snd (get_wssessionid w)) = d @ s @ p @ [] @ [] \<and>
                     fst (get_wssessionid w) = Inl FileNotFoundError"
            using d(1) s(1) t3 by (simp add: effects_of_append)
          with Inl show ?thesis by (intro exI [of _ "[]"]) simp
        next
          case (Inr sc')
          from p(4) [OF Inr] have t3: "trace w3 = trace w2 @ p @ [SubprocessRun sc']" .
          show ?thesis
          proof (cases r3)
            case (Inl e')
            with fin have "snd (get_wssessionid w) = w3" by simp
            then have "effects_of w (snd (get_wssessionid w)) = d @ s @ p @ [SubprocessRun sc'] @ []"
              using d(1) s(1) t3 by (simp add: effects_of_append)
            with Inr show ?thesis
              by (intro exI [of _ "[SubprocessRun sc']"] exI [of _ "[]"]) simp
          next
            case (Inr u)
            with fin have "snd (get_wssessionid w) = w4" by simp
            then have "effects_of w (snd (get_wssessionid w)) = d @ s @ p @ [SubprocessRun sc'] @ d4"
              using d(1) s(1) t3 d4(1) by (simp add: effects_of_append)
            with \<open>fst (find_cookie_script w2) = Inr sc'\<close> d4(2) show ?thesis
              by (intro exI [of _ "[SubprocessRun sc']"] exI [of _ d4]) simp
          qed
        qed
        then obtain x y where
          xy: "effects_of w (snd (get_wssessionid w)) = d @ s @ p @ x @ y"
              "list_all is_disk_effect y"
              "\<And>sc. fst (find_cookie_script w2) = Inr sc \<Longrightarrow> x = [SubprocessRun sc]"
              "\<And>e. fst (find_cookie_script w2) = Inl e \<Longrightarrow>
                 x = [] \<and> y = [] \<and> fst (get_wssessionid w) = Inl FileNotFoundError"
          by blast
        show "list_ex is_search_effect (effects_of w (snd (get_wssessionid w)))"
          using xy(1) exs by (auto simp: list_ex_iff)
        show "list_ex is_extractor_effect (effects_of w (snd (get_wssessionid w)))"
          using xy(1) exp by (auto simp: list_ex_iff)
        show "filter is_subprocess (effects_of w (snd (get_wssessionid w))) = [SubprocessRun sc]"
          if "fst (find_cookie_script w2) = Inr sc"
          using xy(1) xy(3) [OF that] no_subprocess_in_disk [OF d(3)] no_subprocess_in_disk [OF xy(2)]
            no_subprocess_in_search [OF s(3)] no_subprocess_in_paths [OF p(2)]
          by simp
        show "fst (get_wssessionid w) = Inl FileNotFoundError \<and>
              filter is_subprocess (effects_of w (snd (get_wssessionid w))) = []"
          if "fst (find_cookie_script w2) = Inl e"
          using xy(1) xy(4) [OF that] no_subprocess_in_disk [OF d(3)]
            no_subprocess_in_search [OF s(3)] no_subprocess_in_paths [OF p(2)]
          by simp
      qed
      have f: "fst (get_wssessionid w) = Inr c" if "r3 = Inr ()" "r4 = Inr c" "truthy c" for c
        using that l1 l2 l3 l4 c1 c2 by (simp add: get_wssessionid_def)
      from l1 l2 l3 l4 c1 c2 a b c e f show ?thesis by auto
    qed
  qed
qed

text \<open>
  Claim C3. The tiers are attempted in the order disk, peer capture, extractor, and the
  first success ends the chain. When the disk load returns a credential, it is the result,
  and neither the peer-capture file nor the extractor is touched. When the peer-capture
  harvest returns one, it is the result and the extractor is not touched. The effects of
  every run are those of the disk tier, then those of the peer-capture tier, then the
  rest, which begins with an effect of the extractor tier. The peer-capture file is
  consulted exactly when the disk load returns nothing, and the extractor tier is entered
  exactly when both earlier tiers return nothing: then the program that
  \<^verbatim>\<open>_find_cookie_script\<close> returns is run exactly once, or, when it finds none, the chain
  raises \<^verbatim>\<open>FileNotFoundError\<close> without any subprocess; and when the program exits with
  status 0 and the reloaded store holds a credential, that credential is returned.
\<close>

theorem fallback_order_and_short_circuit:
  "(\<forall>c. fst (load_cookie_from_disk w) = Inr c \<and> truthy c \<longrightarrow>
        fst (get_wssessionid w) = Inr c \<and>
        list_all is_disk_effect (effects_of w (snd (get_wssessionid w))) \<and>
        \<not> list_ex is_search_effect (effects_of w (snd (get_wssessionid w))) \<and>
        \<not> list_ex is_extractor_effect (effects_of w (snd (get_wssessionid w)))) \<and>
   (\<forall>c1 c2. fst (load_cookie_from_disk w) = Inr c1 \<and> \<not> truthy c1 \<and>
        fst (load_cookie_from_search_results (snd (load_cookie_from_disk w))) = Inr c2 \<and> truthy c2 \<longrightarrow>
        fst (get_wssessionid w) = Inr c2 \<and>
        \<not> list_ex is_extractor_effect (effects_of w (snd (get_wssessionid w)))) \<and>
   (\<exists>d s x. effects_of w (snd (get_wssessionid w)) = d @ s @ x \<and> d \<noteq> [] \<and>
        list_all is_disk_effect d \<and> list_all is_search_effect s \<and>
        \<not> list_ex is_search_effect x \<and>
        (x \<noteq> [] \<longrightarrow> s \<noteq> [] \<and> is_extractor_effect (hd x))) \<and>
   (list_ex is_search_effect (effects_of w (snd (get_wssessionid w))) \<longleftrightarrow>
      (\<exists>c. fst (load_cookie_from_disk w) = Inr c \<and> \<not> truthy c)) \<and>
   (list_ex is_extractor_effect (effects_of w (snd (get_wssessionid w))) \<longleftrightarrow>
      (\<exists>c1 c2. fst (load_cookie_from_disk w) = Inr c1 \<and> \<not> truthy c1 \<and>
         fst (load_cookie_from_search_results (snd (load_cookie_from_disk w))) = Inr c2 \<and>
         \<not> truthy c2)) \<and>
   (\<forall>c1 c2. fst (load_cookie_from_disk w) = Inr c1 \<and> \<not> truthy c1 \<and>
      fst (load_cookie_from_search_results (snd (load_cookie_from_disk w))) = Inr c2 \<and>
      \<not> truthy c2 \<longrightarrow>
      (\<forall>sc. fst (find_cookie_script
                (snd (load_cookie_from_search_results (snd (load_cookie_from_disk w))))) = Inr sc \<longrightarrow>
         filter is_subprocess (effects_of w (snd (get_wssessionid w))) = [SubprocessRun sc]) \<and>
      (\<forall>e. fst (find_cookie_script
                (snd (load_cookie_from_search_results (snd (load_cookie_from_disk w))))) = Inl e \<longrightarrow>
         fst (get_wssessionid w) = Inl FileNotFoundError \<and>
         filter is_subprocess (effects_of w (snd (get_wssessionid w))) = []) \<and>
      (\<forall>c. fst (run_cookie_script
                (snd (load_cookie_from_search_results (snd (load_cookie_from_disk w))))) = Inr () \<and>
           fst (load_cookie_from_disk (snd (run_cookie_script
                (snd (load_cookie_from_search_results (snd (load_cookie_from_disk w))))))) = Inr c \<and>
           truthy c \<longrightarrow>
         fst (get_wssessionid w) = Inr c))"
  using fallback_effects_in_tier_order [of w] fallback_tiers_attempted [of w]
  by (elim conjE) (intro conjI; assumption)

lemma fresh_sample:
  "fst (load_cookie_from_disk (world_store (JSON (stored_credential ''2025-01-06T08:01:00'')))) =
     Inr (JStr ''abc'')"
  by (simp add: load_cookie_from_disk_def sample_eval)

lemma extractor_sample:
  "fst (load_cookie_from_disk world_extractor) = Inr JNull"
  "fst (load_cookie_from_search_results (snd (load_cookie_from_disk world_extractor))) = Inr JNull"
  "fst (find_cookie_script
          (snd (load_cookie_from_search_results (snd (load_cookie_from_disk world_extractor))))) =
     Inr ''cmu_25live_search_cookie_extractor.py''"
  "fst (run_cookie_script
          (snd (load_cookie_from_search_results (snd (load_cookie_from_disk world_extractor))))) =
     Inr ()"
  "fst (load_cookie_from_disk (snd (run_cookie_script
          (snd (load_cookie_from_search_results (snd (load_cookie_from_disk world_extractor))))))) =
     Inr (JStr ''abc'')"
  by (simp_all add: load_cookie_from_disk_def load_cookie_from_search_results_def
        find_cookie_script_def candidates_def run_cookie_script_def world_extractor_def
        sample_eval)

lemma peer_sample:
  "fst (load_cookie_from_disk (world_peer_capture ''A=1; WSSESSIONID=xyz'')) = Inr JNull"
  "fst (load_cookie_from_search_results
          (snd (load_cookie_from_disk (world_peer_capture ''A=1; WSSESSIONID=xyz'')))) =
     Inr (JStr ''xyz'')"
  by (simp_all add: load_cookie_from_disk_def load_cookie_from_search_results_def
        world_peer_capture_def peer_capture_def world0_def
        dict_get_def PREFERRED_COOKIE_KEY_def SEARCH_COOKIES_FILE_def COOKIE_FILE_def emit_def
        strip_def is_space_def upper_def upper_char_def startswith_def split_once_def Let_def)

theorem fallback_order_and_short_circuit_witness:
  "fst (load_cookie_from_disk (world_store (JSON (stored_credential ''2025-01-06T08:01:00'')))) =
     Inr (JStr ''abc'') \<and>
   fst (get_wssessionid (world_store (JSON (stored_credential ''2025-01-06T08:01:00'')))) =
     Inr (JStr ''abc'') \<and>
   list_all is_disk_effect
     (effects_of (world_store (JSON (stored_credential ''2025-01-06T08:01:00'')))
        (snd (get_wssessionid (world_store (JSON (stored_credential ''2025-01-06T08:01:00'')))))) \<and>
   fst (load_cookie_from_disk (world_peer_capture ''A=1; WSSESSIONID=xyz'')) = Inr JNull \<and>
   fst (load_cookie_from_search_results
          (snd (load_cookie_from_disk (world_peer_capture ''A=1; WSSESSIONID=xyz'')))) =
     Inr (JStr ''xyz'') \<and>
   fst (get_wssessionid (world_peer_capture ''A=1; WSSESSIONID=xyz'')) = Inr (JStr ''xyz'') \<and>
   list_ex is_search_effect
     (effects_of (world_peer_capture ''A=1; WSSESSIONID=xyz'')
        (snd (get_wssessionid (world_peer_capture ''A=1; WSSESSIONID=xyz'')))) \<and>
   \<not> list_ex is_extractor_effect
     (effects_of (world_peer_capture ''A=1; WSSESSIONID=xyz'')
        (snd (get_wssessionid (world_peer_capture ''A=1; WSSESSIONID=xyz'')))) \<and>
   fst (load_cookie_from_disk world_extractor) = Inr JNull \<and>
   fst (load_cookie_from_search_results (snd (load_cookie_from_disk world_extractor))) = Inr JNull \<and>
   fst (find_cookie_script
          (snd (load_cookie_from_search_results (snd (load_cookie_from_disk world_extractor))))) =
     Inr ''cmu_25live_search_cookie_extractor.py'' \<and>
   list_ex is_extractor_effect (effects_of world_extractor (snd (get_wssessionid world_extractor))) \<and>
   filter is_subprocess (effects_of world_extractor (snd (get_wssessionid world_extractor))) =
     [SubprocessRun ''cmu_25live_search_cookie_extractor.py''] \<and>
   fst (get_wssessionid world_extractor) = Inr (JStr ''abc'')"
proof -
  note t1 = fallback_order_and_short_circuit [of "world_store (JSON (stored_credential ''2025-01-06T08:01:00''))"]
  note t2 = fallback_order_and_short_circuit [of "world_peer_capture ''A=1; WSSESSIONID=xyz''"]
  note t3 = fallback_order_and_short_circuit [of world_extractor]
  have tr: "truthy (JStr ''abc'')" "truthy (JStr ''xyz'')" "\<not> truthy JNull" by simp_all
  have a: "fst (get_wssessionid (world_store (JSON (stored_credential ''2025-01-06T08:01:00'')))) =
             Inr (JStr ''abc'') \<and>
           list_all is_disk_effect
             (effects_of (world_store (JSON (stored_credential ''2025-01-06T08:01:00'')))
                (snd (get_wssessionid (world_store (JSON (stored_credential ''2025-01-06T08:01:00''))))))"
    using t1 fresh_sample tr(1) by blast
  have b: "fst (get_wssessionid (world_peer_capture ''A=1; WSSESSIONID=xyz'')) = Inr (JStr ''xyz'') \<and>
           list_ex is_search_effect
             (effects_of (world_peer_capture ''A=1; WSSESSIONID=xyz'')
                (snd (get_wssessionid (world_peer_capture ''A=1; WSSESSIONID=xyz'')))) \<and>
           \<not> list_ex is_extractor_effect
             (effects_of (world_peer_capture ''A=1; WSSESSIONID=xyz'')
                (snd (get_wssessionid (world_peer_capture ''A=1; WSSESSIONID=xyz''))))"
    using t2 peer_sample tr(2,3) by blast
  have c: "list_ex is_extractor_effect (effects_of world_extractor (snd (get_wssessionid world_extractor))) \<and>
           filter is_subprocess (effects_of world_extractor (snd (get_wssessionid world_extractor))) =
             [SubprocessRun ''cmu_25live_search_cookie_extractor.py''] \<and>
           fst (get_wssessionid world_extractor) = Inr (JStr ''abc'')"
    using t3 extractor_sample tr(1,3) by blast
  from a b c fresh_sample peer_sample extractor_sample(1,2,3) show ?thesis by (intro conjI) blast+
qed

text \<open>
  For a store whose token is truthy and whose timestamp parses to a naive datetime, the
  load returns the token exactly when now minus the timestamp is less than twelve hours,
  and \<^verbatim>\<open>None\<close> otherwise, after which the chain goes on to the peer-capture file; an age
  of 11 h 59 min is accepted, one of 12 h 01 min is not.
\<close>

lemma naive_timestamp_fresh_iff_under_twelve_hours:
  assumes "fs w COOKIE_FILE = JSON (JObj kvs)"
      and "truthy (dict_get kvs ''WSSESSIONID'' JNull)"
      and "truthy (dict_get kvs ''extracted_at'' JNull)"
      and "parse_datetime w (dict_get kvs ''extracted_at'' JNull) = Some dt"
      and "tzinfo dt = None"
  shows "(fst (load_cookie_from_disk w) = Inr (dict_get kvs ''WSSESSIONID'' JNull) \<longleftrightarrow>
            micros_of (datetime_now w) - micros_of dt < 12 * 3600 * 1000000) \<and>
         (\<not> micros_of (datetime_now w) - micros_of dt < 12 * 3600 * 1000000 \<longrightarrow>
            fst (load_cookie_from_disk w) = Inr JNull \<and>
            list_ex is_search_effect (effects_of w (snd (get_wssessionid w)))) \<and>
         (micros_of (datetime_now w) - micros_of dt = (11 * 3600 + 59 * 60) * 1000000 \<longrightarrow>
            fst (load_cookie_from_disk w) = Inr (dict_get kvs ''WSSESSIONID'' JNull)) \<and>
         (micros_of (datetime_now w) - micros_of dt = (12 * 3600 + 1 * 60) * 1000000 \<longrightarrow>
            fst (load_cookie_from_disk w) = Inr JNull)"
proof -
  note ld = load_cookie_from_disk_naive [OF assms]
  have stale: "list_ex is_search_effect (effects_of w (snd (get_wssessionid w)))"
    if stl: "fst (load_cookie_from_disk w) = Inr JNull"
  proof -
    obtain w1 where l1: "load_cookie_from_disk w = (Inr JNull, w1)"
      using stl by (cases "load_cookie_from_disk w") auto
    from disk_shape [of w] l1 obtain d where d: "trace w1 = trace w @ d" by auto
    obtain r2 w2 where l2: "load_cookie_from_search_results w1 = (r2, w2)"
      by (cases "load_cookie_from_search_results w1") auto
    from search_shape [of w1] l2 obtain s where
      s: "trace w2 = trace w1 @ s" "s \<noteq> []" "list_all is_search_effect s" by auto
    from s(2,3) have exs: "list_ex is_search_effect s" by (cases s) auto
    obtain r3 w3 where l3: "run_cookie_script w2 = (r3, w3)"
      by (cases "run_cookie_script w2") auto
    from run_shape [of w2] l3 obtain x3 where x3: "trace w3 = trace w2 @ x3" by auto
    obtain r4 w4 where l4: "load_cookie_from_disk w3 = (r4, w4)"
      by (cases "load_cookie_from_disk w3") auto
    from disk_shape [of w3] l4 obtain d4 where d4: "trace w4 = trace w3 @ d4" by auto
    have "\<exists>x. trace (snd (get_wssessionid w)) = trace w @ d @ s @ x"
      using l1 l2 l3 l4 d s(1) x3 d4
      by (auto simp: get_wssessionid_def split: sum.splits)
    then obtain x where "effects_of w (snd (get_wssessionid w)) = d @ s @ x"
      by (auto simp: effects_of_def)
    with exs show ?thesis by (auto simp: list_ex_iff)
  qed
  from assms(2) have nn: "dict_get kvs ''WSSESSIONID'' JNull \<noteq> JNull" by auto
  from ld nn stale show ?thesis by auto
qed

lemma stale_sample:
  "fst (load_cookie_from_disk (world_store (JSON (stored_credential ''2025-01-06T07:59:00'')))) =
     Inr JNull"
  by (simp add: load_cookie_from_disk_def sample_eval)

lemma naive_timestamp_fresh_sample:
  "fs (world_store (JSON (stored_credential ''2025-01-06T08:01:00''))) COOKIE_FILE =
     JSON (stored_credential ''2025-01-06T08:01:00'') \<and>
   micros_of (datetime_now (world_store (JSON (stored_credential ''2025-01-06T08:01:00'')))) -
     micros_of \<lparr>year = 2025, month = 1, day = 6, hour = 8, minute = 1, second = 0,
                 microsecond = 0, tzinfo = None\<rparr> = (11 * 3600 + 59 * 60) * 1000000 \<and>
   fst (load_cookie_from_disk (world_store (JSON (stored_credential ''2025-01-06T08:01:00'')))) =
     Inr (JStr ''abc'')"
proof -
  let ?w = "world_store (JSON (stored_credential ''2025-01-06T08:01:00''))"
  let ?kvs = "[(''WSSESSIONID'', JStr ''abc''), (''extracted_at'', JStr ''2025-01-06T08:01:00'')]"
  let ?dt = "\<lparr>year = 2025, month = 1, day = 6, hour = 8, minute = 1, second = 0,
               microsecond = 0, tzinfo = None\<rparr>"
  have h1: "fs ?w COOKIE_FILE = JSON (JObj ?kvs)" by (simp add: sample_eval)
  have h2: "truthy (dict_get ?kvs ''WSSESSIONID'' JNull)" by (simp add: dict_get_def)
  have h3: "truthy (dict_get ?kvs ''extracted_at'' JNull)" by (simp add: dict_get_def)
  have h4: "parse_datetime ?w (dict_get ?kvs ''extracted_at'' JNull) = Some ?dt"
    by (simp add: sample_eval)
  have h5: "tzinfo ?dt = None" by simp
  have age: "micros_of (datetime_now ?w) - micros_of ?dt = (11 * 3600 + 59 * 60) * 1000000"
    by (simp add: sample_eval)
  from naive_timestamp_fresh_iff_under_twelve_hours [OF h1 h2 h3 h4 h5] age h1
  show ?thesis by (simp add: dict_get_def stored_credential_def)
qed

text \<open>
  Claim C5. The claim asks that a well-formed store is accepted exactly when it is less
  than twelve hours old. The store format allows a timestamp with a trailing \<^verbatim>\<open>Z\<close> or an
  explicit offset; such a timestamp parses to an aware datetime, the subtraction from the
  naive \<^verbatim>\<open>datetime.now()\<close> raises \<^verbatim>\<open>TypeError\<close>, and the store is not accepted whatever its
  age: not when it is one minute old, and not at 11 h 59 min.
\<close>

theorem aware_timestamp_not_accepted_when_fresh:
  "fst (load_cookie_from_disk (world_store (JSON (stored_credential ''2025-01-06T19:59:00Z'')))) =
     Inl TypeError \<and>
   fst (load_cookie_from_disk (world_store (JSON (stored_credential ''2025-01-06T08:01:00+00:00'')))) =
     Inl TypeError"
  by (simp add: load_cookie_from_disk_def sample_eval)

text \<open>
  Claim C2. The claim asks that the load never raises and accepts a timestamp ending in
  \<^verbatim>\<open>Z\<close>. The suffix is rewritten to \<^verbatim>\<open>+00:00\<close> and parsed to an aware datetime, and
  subtracting it from the naive \<^verbatim>\<open>datetime.now()\<close> raises \<^verbatim>\<open>TypeError\<close>, which nothing
  catches.
\<close>

theorem utc_suffix_timestamp_raises:
  "fst (load_cookie_from_disk (world_store (JSON (stored_credential ''2025-01-06T08:01:00Z'')))) =
     Inl TypeError"
  by (simp add: load_cookie_from_disk_def sample_eval)

text \<open>
  Claim C4. The claim allows exactly three fatal outcomes of the acquisition. With the
  same store as above the chain ends in a fourth, the \<^verbatim>\<open>TypeError\<close> of the disk tier, before
  any other tier is tried.
\<close>

theorem acquisition_raises_outside_three_cases:
  "fst (get_wssessionid (world_store (JSON (stored_credential ''2025-01-06T08:01:00Z'')))) =
     Inl TypeError"
  by (simp add: get_wssessionid_def load_cookie_from_disk_def sample_eval)

subsection \<open>The orchestrator\<close>

lemma acquisition_effects_only:
  "list_all is_acquisition_effect (effects_of w (snd (get_wssessionid w)))"
proof -
  have A: "list_all is_acquisition_effect es" if "list_all is_disk_effect es" for es
    using that by (auto simp: list_all_iff is_disk_effect_def)
  have B: "list_all is_acquisition_effect es" if "list_all is_search_effect es" for es
    using that by (auto simp: list_all_iff is_search_effect_def)
  have C: "is_acquisition_effect e" if "is_extractor_effect e" for e
    using that by (cases e) auto
  obtain r1 w1 where l1: "load_cookie_from_disk w = (r1, w1)"
    by (cases "load_cookie_from_disk w") auto
  from disk_shape [of w] l1 obtain d where d: "trace w1 = trace w @ d" "list_all is_disk_effect d"
    by auto
  obtain r2 w2 where l2: "load_cookie_from_search_results w1 = (r2, w2)"
    by (cases "load_cookie_from_search_results w1") auto
  from search_shape [of w1] l2 obtain s where
    s: "trace w2 = trace w1 @ s" "list_all is_search_effect s" by auto
  obtain r3 w3 where l3: "run_cookie_script w2 = (r3, w3)"
    by (cases "run_cookie_script w2") auto
  from run_shape [of w2] l3 obtain x3 where
    x3: "trace w3 = trace w2 @ x3" "list_all is_extractor_effect x3" by auto
  obtain r4 w4 where l4: "load_cookie_from_disk w3 = (r4, w4)"
    by (cases "load_cookie_from_disk w3") auto
  from disk_shape [of w3] l4 obtain d4 where
    d4: "trace w4 = trace w3 @ d4" "list_all is_disk_effect d4" by auto
  have x3a: "list_all is_acquisition_effect x3" using x3(2) C by (auto simp: list_all_iff)
  have "snd (get_wssessionid w) \<in> {w1, w2, w3, w4}"
    using l1 l2 l3 l4 by (auto simp: get_wssessionid_def split: sum.splits)
  then have "effects_of w (snd (get_wssessionid w)) \<in> {d, d @ s, d @ s @ x3, d @ s @ x3 @ d4}"
    using d(1) s(1) x3(1) d4(1) by (auto simp: effects_of_def)
  with A [OF d(2)] B [OF s(2)] x3a A [OF d4(2)] show ?thesis by auto
qed

lemma fallback_trace_extends:
  "\<exists>es. trace (snd (get_wssessionid w)) = trace w @ es"
proof -
  obtain r1 w1 where l1: "load_cookie_from_disk w = (r1, w1)"
    by (cases "load_cookie_from_disk w") auto
  from disk_shape [of w] l1 obtain d where d: "trace w1 = trace w @ d" by auto
  obtain r2 w2 where l2: "load_cookie_from_search_results w1 = (r2, w2)"
    by (cases "load_cookie_from_search_results w1") auto
  from search_shape [of w1] l2 obtain s where s: "trace w2 = trace w1 @ s" by auto
  obtain r3 w3 where l3: "run_cookie_script w2 = (r3, w3)"
    by (cases "run_cookie_script w2") auto
  from run_shape [of w2] l3 obtain x3 where x3: "trace w3 = trace w2 @ x3" by auto
  obtain r4 w4 where l4: "load_cookie_from_disk w3 = (r4, w4)"
    by (cases "load_cookie_from_disk w3") auto
  from disk_shape [of w3] l4 obtain d4 where d4: "trace w4 = trace w3 @ d4" by auto
  have "snd (get_wssessionid w) \<in> {w1, w2, w3, w4}"
    using l1 l2 l3 l4 by (auto simp: get_wssessionid_def split: sum.splits)
  with d s x3 d4 show ?thesis by auto
qed

lemma fetch_building_events_value:
  "fst (fetch_building_events b d c (w\<lparr>trace := tr\<rparr>)) = fst (fetch_building_events b d c w)"
  by (simp add: fetch_building_events_def Let_def split: http_outcome.splits body.splits)

lemma fetch_building_events_world:
  "snd (fetch_building_events b d c w) =
     w\<lparr>trace := trace w @ [RequestsGet (get_url b d) (''WSSESSIONID='' @ py_str (repr w) c)]\<rparr>"
  by (simp add: fetch_building_events_def Let_def emit_def)

lemma fetch_then_sleep_ok:
  assumes "fst (fetch_building_events b d c w) = Inr evs"
  shows "fetch_then_sleep c b d (w\<lparr>trace := tr\<rparr>) =
           (Inr evs, w\<lparr>trace := tr @ [RequestsGet (get_url b d) (''WSSESSIONID='' @ py_str (repr w) c),
                                         TimeSleep]\<rparr>)"
proof -
  have "fst (fetch_building_events b d c (w\<lparr>trace := tr\<rparr>)) = Inr evs"
    using assms by (simp add: fetch_building_events_value)
  moreover have "snd (fetch_building_events b d c (w\<lparr>trace := tr\<rparr>)) =
      w\<lparr>trace := tr @ [RequestsGet (get_url b d) (''WSSESSIONID='' @ py_str (repr w) c)]\<rparr>"
    by (simp add: fetch_building_events_world)
  ultimately have "fetch_building_events b d c (w\<lparr>trace := tr\<rparr>) =
      (Inr evs, w\<lparr>trace := tr @ [RequestsGet (get_url b d) (''WSSESSIONID='' @ py_str (repr w) c)]\<rparr>)"
    by (metis prod.collapse)
  then show ?thesis by (simp add: fetch_then_sleep_def emit_def)
qed

lemma for_extend_all_Inr:
  assumes "\<forall>x\<in>set xs. \<forall>tr. body x (w\<lparr>trace := tr\<rparr>) = (Inr (g x), w\<lparr>trace := tr @ t x\<rparr>)"
  shows "for_extend body xs (w\<lparr>trace := tr\<rparr>) =
           (Inr (concat (map g xs)), w\<lparr>trace := tr @ concat (map t xs)\<rparr>)"
  using assms by (induction xs arbitrary: tr) auto


text \<open>
  When the acquisition returns a string credential and every fetch returns a list, the
  orchestrator returns the lists of all pairs concatenated, buildings in their declared
  order and, within a building, the dates of the week in order. The acquisition's effects
  come first and contain no request; after them the trace holds exactly one request per
  pair, in that order and all with the one credential, each followed by the pause. A pair
  whose request fails contributes the empty list, and when every pair does the result is
  the empty list, not an error.
\<close>

lemma orchestrator_in_order_when_fetches_return:
  assumes acq: "get_wssessionid w = (Inr (JStr c), w1)"
      and week: "get_current_week_dates (today w1) = Inr week"
      and each: "\<forall>b\<in>set BUILDING_IDS. \<forall>d\<in>set week.
                   fst (fetch_building_events b d (JStr c) w1) = Inr (evs b d)"
  shows "fst (get_current_week_events w) =
           Inr (concat (map (\<lambda>b. concat (map (evs b) week)) BUILDING_IDS)) \<and>
         trace (snd (get_current_week_events w)) =
           trace w @ effects_of w w1 @
           concat (map (\<lambda>b. concat (map (\<lambda>d. [RequestsGet (get_url b d) (''WSSESSIONID='' @ c),
                                                  TimeSleep]) week)) BUILDING_IDS) \<and>
         list_all is_acquisition_effect (effects_of w w1) \<and>
         (\<forall>b\<in>set BUILDING_IDS. \<forall>d\<in>set week.
            http w1 (get_url b d) (''WSSESSIONID='' @ c) = RequestException \<longrightarrow> evs b d = []) \<and>
         ((\<forall>b\<in>set BUILDING_IDS. \<forall>d\<in>set week. evs b d = []) \<longrightarrow>
            fst (get_current_week_events w) = Inr [])"
proof -
  let ?t = "\<lambda>b d. [RequestsGet (get_url b d) (''WSSESSIONID='' @ c), TimeSleep]"
  have inner: "for_extend (fetch_then_sleep (JStr c) b) week (w1\<lparr>trace := tr\<rparr>) =
                 (Inr (concat (map (evs b) week)), w1\<lparr>trace := tr @ concat (map (?t b) week)\<rparr>)"
    if "b \<in> set BUILDING_IDS" for b tr
  proof (rule for_extend_all_Inr, intro ballI allI)
    fix d tr' assume "d \<in> set week"
    with each that have "fst (fetch_building_events b d (JStr c) w1) = Inr (evs b d)" by blast
    from fetch_then_sleep_ok [OF this, of tr']
    show "fetch_then_sleep (JStr c) b d (w1\<lparr>trace := tr'\<rparr>) =
            (Inr (evs b d), w1\<lparr>trace := tr' @ ?t b d\<rparr>)" by simp
  qed
  have outer: "for_extend (\<lambda>b. for_extend (fetch_then_sleep (JStr c) b) week) BUILDING_IDS
                 (w1\<lparr>trace := trace w1\<rparr>) =
               (Inr (concat (map (\<lambda>b. concat (map (evs b) week)) BUILDING_IDS)),
                w1\<lparr>trace := trace w1 @ concat (map (\<lambda>b. concat (map (?t b) week)) BUILDING_IDS)\<rparr>)"
    by (rule for_extend_all_Inr) (simp add: inner)
  have run: "get_current_week_events w =
               (Inr (concat (map (\<lambda>b. concat (map (evs b) week)) BUILDING_IDS)),
                w1\<lparr>trace := trace w1 @ concat (map (\<lambda>b. concat (map (?t b) week)) BUILDING_IDS)\<rparr>)"
    using acq week outer by (simp add: get_current_week_events_def)
  have pre: "\<exists>es. trace w1 = trace w @ es"
  proof -
    from fallback_trace_extends [of w] acq show ?thesis by simp
  qed
  then have tr1: "trace w1 = trace w @ effects_of w w1" by (auto simp: effects_of_def)
  have acqe: "list_all is_acquisition_effect (effects_of w w1)"
    using acquisition_effects_only [of w] acq by simp
  have failed: "evs b d = []"
    if "b \<in> set BUILDING_IDS" "d \<in> set week"
       "http w1 (get_url b d) (''WSSESSIONID='' @ c) = RequestException" for b d
  proof -
    from that(3) have "fst (fetch_building_events b d (JStr c) w1) = Inr []"
      by (simp add: fetch_building_events_def Let_def)
    with each that(1,2) show ?thesis by auto
  qed
  have empty: "fst (get_current_week_events w) = Inr []"
    if "\<forall>b\<in>set BUILDING_IDS. \<forall>d\<in>set week. evs b d = []"
    using run that by simp
  from run tr1 acqe failed empty show ?thesis by auto
qed


lemma week_of_sample:
  "get_current_week_dates \<lparr>year = 2025, month = 1, day = 6\<rparr> =
     Inr [''2025-01-06'', ''2025-01-07'', ''2025-01-08'', ''2025-01-09'', ''2025-01-10'',
          ''2025-01-11'', ''2025-01-12'']"
  by (simp add: get_current_week_dates_def date_add_days_def weekday_def toordinal_def
        ymd2ord_def days_before_year_def days_before_month_def DAYS_BEFORE_MONTH_def
        DAYS_IN_MONTH_def is_leap_def MAXORDINAL_def ord2ymd_def isoformat_def zero_pad_def
        Let_def)

lemma acquisition_of_sample:
  "get_wssessionid world_one_answer =
     (Inr (JStr ''abc''),
      world_one_answer\<lparr>trace := [PathExists COOKIE_FILE, ReadText COOKIE_FILE]\<rparr>)"
  by (simp add: get_wssessionid_def load_cookie_from_disk_def world_one_answer_def sample_eval)

lemma orchestrator_in_order_sample:
  "fst (get_wssessionid world_one_answer) = Inr (JStr ''abc'') \<and>
   fst (get_current_week_events world_one_answer) = Inr [seminar ''CUC 101'', seminar ''CUC 102'']"
proof -
  let ?w1 = "world_one_answer\<lparr>trace := [PathExists COOKIE_FILE, ReadText COOKIE_FILE]\<rparr>"
  let ?week = "[''2025-01-06'', ''2025-01-07'', ''2025-01-08'', ''2025-01-09'', ''2025-01-10'',
                ''2025-01-11'', ''2025-01-12'']"
  let ?evs = "\<lambda>b d. if b = ''583852'' \<and> d = ''2025-01-08''
                     then [seminar ''CUC 101'', seminar ''CUC 102''] else []"
  have h2: "get_current_week_dates (today ?w1) = Inr ?week"
    using week_of_sample by (simp add: world_one_answer_def world_store_def world0_def)
  have h3: "\<forall>b\<in>set BUILDING_IDS. \<forall>d\<in>set ?week.
              fst (fetch_building_events b d (JStr ''abc'') ?w1) = Inr (?evs b d)"
    by (simp add: BUILDING_IDS_def fetch_building_events_def world_one_answer_def get_url_def
          world_store_def world0_def two_rooms_def events_of_data_def rsrv_of_def
          events_of_entry_def make_event_def dict_get_def raises_for_status_def seminar_def
          Let_def)
  from orchestrator_in_order_when_fetches_return [OF acquisition_of_sample h2 h3]
  have "fst (get_current_week_events world_one_answer) =
          Inr (concat (map (\<lambda>b. concat (map (?evs b) ?week)) BUILDING_IDS))" by blast
  then have "fst (get_current_week_events world_one_answer) =
          Inr [seminar ''CUC 101'', seminar ''CUC 102'']"
    by (simp add: BUILDING_IDS_def)
  with acquisition_of_sample show ?thesis by simp
qed

lemma acquisition_of_bad_body:
  "get_wssessionid world_bad_body =
     (Inr (JStr ''abc''),
      world_bad_body\<lparr>trace := [PathExists COOKIE_FILE, ReadText COOKIE_FILE]\<rparr>)"
  by (simp add: get_wssessionid_def load_cookie_from_disk_def world_bad_body_def sample_eval)

lemma bad_body_fetches:
  "fetch_then_sleep (JStr ''abc'') ''618852'' ''2025-01-06'' (world_bad_body\<lparr>trace := tr\<rparr>) =
     (Inr [\<lparr>name = ''Seminar'', location = JStr ''CUC 101'',
            startTime = JStr ''2025-01-06T09:00:00'', endTime = JStr ''2025-01-06T10:00:00'',
            date = ''2025-01-06'', buildingID = ''618852''\<rparr>,
           \<lparr>name = ''Seminar'', location = JStr ''CUC 102'',
            startTime = JStr ''2025-01-06T09:00:00'', endTime = JStr ''2025-01-06T10:00:00'',
            date = ''2025-01-06'', buildingID = ''618852''\<rparr>],
      world_bad_body\<lparr>trace := tr @ [RequestsGet (get_url ''618852'' ''2025-01-06'') ''WSSESSIONID=abc'',
                                      TimeSleep]\<rparr>)"
  "fetch_then_sleep (JStr ''abc'') ''618852'' ''2025-01-07'' (world_bad_body\<lparr>trace := tr\<rparr>) =
     (Inr [\<lparr>name = ''Seminar'', location = JStr ''CUC 101'',
            startTime = JStr ''2025-01-06T09:00:00'', endTime = JStr ''2025-01-06T10:00:00'',
            date = ''2025-01-07'', buildingID = ''618852''\<rparr>,
           \<lparr>name = ''Seminar'', location = JStr ''CUC 102'',
            startTime = JStr ''2025-01-06T09:00:00'', endTime = JStr ''2025-01-06T10:00:00'',
            date = ''2025-01-07'', buildingID = ''618852''\<rparr>],
      world_bad_body\<lparr>trace := tr @ [RequestsGet (get_url ''618852'' ''2025-01-07'') ''WSSESSIONID=abc'',
                                      TimeSleep]\<rparr>)"
  "fetch_then_sleep (JStr ''abc'') ''618852'' ''2025-01-08'' (world_bad_body\<lparr>trace := tr\<rparr>) =
     (Inl IndexError,
      world_bad_body\<lparr>trace := tr @ [RequestsGet (get_url ''618852'' ''2025-01-08'') ''WSSESSIONID=abc'']\<rparr>)"
  by (simp_all add: fetch_then_sleep_def fetch_building_events_def world_bad_body_def get_url_def
        world_store_def world0_def two_rooms_def empty_events_def events_of_data_def rsrv_of_def
        events_of_entry_def make_event_def dict_get_def emit_def raises_for_status_def Let_def)

text \<open>
  Claim C8. The claim asks that a failure for one pair leaves the contributions of all
  other pairs in the result. A fetch that raises is not caught by the orchestrator: with
  the server above, the first two pairs are fetched and each yields two records, the
  third request is answered with the empty \<^verbatim>\<open>events\<close> list, the fetch raises
  \<^verbatim>\<open>IndexError\<close>, and the run ends with that exception. No list is returned, the records
  already accumulated are lost, and the other 74 pairs, each of which would yield two
  records, are never requested.
\<close>

theorem malformed_body_aborts_the_run:
  "get_current_week_events world_bad_body =
     (Inl IndexError,
      world_bad_body\<lparr>trace :=
        [PathExists COOKIE_FILE, ReadText COOKIE_FILE,
         RequestsGet (get_url ''618852'' ''2025-01-06'') ''WSSESSIONID=abc'', TimeSleep,
         RequestsGet (get_url ''618852'' ''2025-01-07'') ''WSSESSIONID=abc'', TimeSleep,
         RequestsGet (get_url ''618852'' ''2025-01-08'') ''WSSESSIONID=abc'']\<rparr>) \<and>
   map_sum id (map location)
     (fst (fetch_building_events ''618852'' ''2025-01-06'' (JStr ''abc'') world_bad_body)) =
     Inr [JStr ''CUC 101'', JStr ''CUC 102''] \<and>
   map_sum id (map location)
     (fst (fetch_building_events ''583865'' ''2025-01-12'' (JStr ''abc'') world_bad_body)) =
     Inr [JStr ''CUC 101'', JStr ''CUC 102'']"
proof -
  have td: "today (world_bad_body\<lparr>trace := tr\<rparr>) = \<lparr>year = 2025, month = 1, day = 6\<rparr>" for tr
    by (simp add: world_bad_body_def world_store_def world0_def)
  have run: "get_current_week_events world_bad_body =
     (Inl IndexError,
      world_bad_body\<lparr>trace :=
        [PathExists COOKIE_FILE, ReadText COOKIE_FILE,
         RequestsGet (get_url ''618852'' ''2025-01-06'') ''WSSESSIONID=abc'', TimeSleep,
         RequestsGet (get_url ''618852'' ''2025-01-07'') ''WSSESSIONID=abc'', TimeSleep,
         RequestsGet (get_url ''618852'' ''2025-01-08'') ''WSSESSIONID=abc'']\<rparr>)"
    by (simp add: get_current_week_events_def acquisition_of_bad_body td week_of_sample
          BUILDING_IDS_def bad_body_fetches)
  have f1: "map_sum id (map location)
     (fst (fetch_building_events ''618852'' ''2025-01-06'' (JStr ''abc'') world_bad_body)) =
     Inr [JStr ''CUC 101'', JStr ''CUC 102'']"
    by (simp add: fetch_building_events_def world_bad_body_def get_url_def
        world_store_def world0_def two_rooms_def events_of_data_def rsrv_of_def
        events_of_entry_def make_event_def dict_get_def emit_def raises_for_status_def Let_def)
  have f2: "map_sum id (map location)
     (fst (fetch_building_events ''583865'' ''2025-01-12'' (JStr ''abc'') world_bad_body)) =
     Inr [JStr ''CUC 101'', JStr ''CUC 102'']"
    by (simp add: fetch_building_events_def world_bad_body_def get_url_def
        world_store_def world0_def two_rooms_def events_of_data_def rsrv_of_def
        events_of_entry_def make_event_def dict_get_def emit_def raises_for_status_def Let_def)
  from run f1 f2 show ?thesis by (intro conjI)
qed

subsection \<open>The week of a date\<close>




































end
